theory Spec2Isabelle
  imports Complex_Main "HOL-Library.Multiset"
begin

section \<open>Numbers\<close>

text \<open>
  Python floats are modelled as exact reals and Python ints as \<open>int\<close>.  The built-in
  \<open>round(x, n)\<close> rounds to \<open>n\<close> decimals, ties to the even neighbour.
\<close>

definition round_half_even :: "real \<Rightarrow> int" where
  "round_half_even x =
     (let f = \<lfloor>x\<rfloor>; d = x - of_int f
      in if d < 1 / 2 then f else if 1 / 2 < d then f + 1 else if even f then f else f + 1)"

definition py_round :: "real \<Rightarrow> nat \<Rightarrow> real" where
  "py_round x n = of_int (round_half_even (x * 10 ^ n)) / 10 ^ n"

section \<open>Strings\<close>

text \<open>
  Titles are character lists.  Case mapping, white space and word characters are the
  ASCII ones; any other byte is left alone by \<open>lower\<close> and counts neither as white space
  nor as a word character.
\<close>

definition ord :: "char \<Rightarrow> nat" where
  "ord c = of_char c"

definition is_upper :: "char \<Rightarrow> bool" where
  "is_upper c = (65 \<le> ord c \<and> ord c \<le> 90)"

definition is_lower :: "char \<Rightarrow> bool" where
  "is_lower c = (97 \<le> ord c \<and> ord c \<le> 122)"

definition is_digit :: "char \<Rightarrow> bool" where
  "is_digit c = (48 \<le> ord c \<and> ord c \<le> 57)"

definition is_space :: "char \<Rightarrow> bool" where
  "is_space c = (ord c = 32 \<or> (9 \<le> ord c \<and> ord c \<le> 13) \<or> (28 \<le> ord c \<and> ord c \<le> 31))"

definition is_word :: "char \<Rightarrow> bool" where
  "is_word c = (is_upper c \<or> is_lower c \<or> is_digit c \<or> c = CHR ''_'')"

definition lower_ch :: "char \<Rightarrow> char" where
  "lower_ch c = (if is_upper c then char_of (ord c + 32) else c)"

definition upper_ch :: "char \<Rightarrow> char" where
  "upper_ch c = (if is_lower c then char_of (ord c - 32) else c)"

definition lower :: "string \<Rightarrow> string" where
  "lower s = map lower_ch s"

definition upper :: "string \<Rightarrow> string" where
  "upper s = map upper_ch s"

definition strip :: "string \<Rightarrow> string" where
  "strip s = rev (dropWhile is_space (rev (dropWhile is_space s)))"

fun starts_with :: "string \<Rightarrow> string \<Rightarrow> bool" where
  "starts_with s [] = True"
| "starts_with [] (p # ps) = False"
| "starts_with (c # cs) (p # ps) = (c = p \<and> starts_with cs ps)"

text \<open>\<open>contains t sub\<close> is Python's \<open>sub in t\<close>.\<close>

fun contains :: "string \<Rightarrow> string \<Rightarrow> bool" where
  "contains [] sub = (sub = [])"
| "contains (c # cs) sub = (starts_with (c # cs) sub \<or> contains cs sub)"

definition any_in :: "string list \<Rightarrow> string \<Rightarrow> bool" where
  "any_in toks t = list_ex (contains t) toks"

fun digits_val :: "string \<Rightarrow> nat \<Rightarrow> nat" where
  "digits_val [] acc = acc"
| "digits_val (c # cs) acc = digits_val cs (10 * acc + (ord c - 48))"

text \<open>\<open>int(s)\<close> on a string of decimal digits.\<close>

definition int_of_digits :: "string \<Rightarrow> int" where
  "int_of_digits s = int (digits_val s 0)"

fun str_nat :: "nat \<Rightarrow> string" where
  "str_nat n = (if n < 10 then [char_of (48 + n)] else str_nat (n div 10) @ [char_of (48 + n mod 10)])"

text \<open>\<open>str(i)\<close> for an int.\<close>

definition str_int :: "int \<Rightarrow> string" where
  "str_int i = (if i < 0 then CHR ''-'' # str_nat (nat (- i)) else str_nat (nat i))"

section \<open>Regular expressions\<close>

text \<open>
  The fragment of Python's \<open>re\<close> that the patterns of the program use: literals,
  character classes, greedy bounded repetition of a class, sequence, alternation in
  priority order, an optional part, one capturing group, negative look-ahead, the word
  boundary and the start anchor.  \<open>matches\<close> lists every way a pattern matches from a
  position, preferred first, as the backtracking matcher would try them.
\<close>

datatype cclass = Digit | Space | AnyCh | OneOf string | Union cclass cclass

datatype rx =
    Lit string
  | Cls cclass
  | Rep cclass nat "nat option"
  | Seq rx rx
  | Alt rx rx
  | Opt rx
  | Grp rx
  | NLook rx
  | WordB
  | Bol

fun cls_ok :: "bool \<Rightarrow> cclass \<Rightarrow> char \<Rightarrow> bool" where
  "cls_ok ci Digit c = is_digit c"
| "cls_ok ci Space c = is_space c"
| "cls_ok ci AnyCh c = (c \<noteq> CHR 0x0A)"
| "cls_ok ci (OneOf cs) c = (if ci then lower_ch c \<in> set (map lower_ch cs) else c \<in> set cs)"
| "cls_ok ci (Union k l) c = (cls_ok ci k c \<or> cls_ok ci l c)"

definition lit_ok :: "bool \<Rightarrow> string \<Rightarrow> string \<Rightarrow> bool" where
  "lit_ok ci w s =
     (let p = take (length w) s in if ci then lower p = lower w else p = w)"

definition word_at :: "string \<Rightarrow> nat \<Rightarrow> bool" where
  "word_at s i = (i < length s \<and> is_word (s ! i))"

definition at_boundary :: "string \<Rightarrow> nat \<Rightarrow> bool" where
  "at_boundary s i = ((0 < i \<and> word_at s (i - 1)) \<noteq> word_at s i)"

type_synonym mstate = "nat \<times> (nat \<times> nat) option"

fun matches :: "bool \<Rightarrow> rx \<Rightarrow> string \<Rightarrow> mstate \<Rightarrow> mstate list" where
  "matches ci (Lit w) s (i, g) = (if lit_ok ci w (drop i s) then [(i + length w, g)] else [])"
| "matches ci (Cls k) s (i, g) =
     (if i < length s \<and> cls_ok ci k (s ! i) then [(i + 1, g)] else [])"
| "matches ci (Rep k lo hi) s (i, g) =
     (let n = length (takeWhile (cls_ok ci k) (drop i s));
          m = (case hi of None \<Rightarrow> n | Some h \<Rightarrow> min n h)
      in map (\<lambda>j. (i + j, g)) (rev [lo ..< Suc m]))"
| "matches ci (Seq a b) s st = concat (map (matches ci b s) (matches ci a s st))"
| "matches ci (Alt a b) s st = matches ci a s st @ matches ci b s st"
| "matches ci (Opt a) s st = matches ci a s st @ [st]"
| "matches ci (Grp a) s (i, g) = map (\<lambda>(j, _). (j, Some (i, j))) (matches ci a s (i, g))"
| "matches ci (NLook a) s st = (if matches ci a s st = [] then [st] else [])"
| "matches ci WordB s (i, g) = (if at_boundary s i then [(i, g)] else [])"
| "matches ci Bol s (i, g) = (if i = 0 then [(i, g)] else [])"

fun seqs :: "rx list \<Rightarrow> rx" where
  "seqs [] = Lit []"
| "seqs [r] = r"
| "seqs (r # rs) = Seq r (seqs rs)"

fun alts :: "rx list \<Rightarrow> rx" where
  "alts [] = NLook (Lit [])"
| "alts [r] = r"
| "alts (r # rs) = Alt r (alts rs)"

fun search_from :: "bool \<Rightarrow> rx \<Rightarrow> string \<Rightarrow> nat \<Rightarrow> nat \<Rightarrow> mstate option" where
  "search_from ci r s i 0 = (case matches ci r s (i, None) of [] \<Rightarrow> None | m # _ \<Rightarrow> Some m)"
| "search_from ci r s i (Suc n) =
     (case matches ci r s (i, None) of [] \<Rightarrow> search_from ci r s (Suc i) n | m # _ \<Rightarrow> Some m)"

text \<open>
  \<open>re.search\<close>: the leftmost start position with a match, and there the preferred match.
  The result is the end position and the span of group 1 when the group took part.
\<close>

definition re_search :: "bool \<Rightarrow> rx \<Rightarrow> string \<Rightarrow> mstate option" where
  "re_search ci r s = search_from ci r s 0 (length s)"

definition re_found :: "bool \<Rightarrow> rx \<Rightarrow> string \<Rightarrow> bool" where
  "re_found ci r s = (re_search ci r s \<noteq> None)"

definition the_default :: "'a \<Rightarrow> 'a option \<Rightarrow> 'a" where
  "the_default d x = (case x of None \<Rightarrow> d | Some v \<Rightarrow> v)"

definition group1 :: "string \<Rightarrow> mstate \<Rightarrow> string option" where
  "group1 s m = (case snd m of None \<Rightarrow> None | Some (a, b) \<Rightarrow> Some (take (b - a) (drop a s)))"

section \<open>Listings and configuration\<close>

text \<open>
  \<open>model_types.Listing\<close>, with the attribute \<open>end_time_ts\<close> that the search parser sets
  on a listing only when it could read the time left (\<open>None\<close>: the attribute is absent).
\<close>

record listing =
  title :: string
  link :: string
  item_price :: real
  shipping :: real
  total_price :: real
  bids :: int
  time_left :: string
  item_id :: "string option"
  quantity :: int
  oz_per_coin :: real
  end_time_ts :: "real option"

text \<open>
  The settings of \<open>config.py\<close> that the valuation, the price memory and the scorer read.
  A setting read with \<open>getattr(config, name, default)\<close> holds the default when the module
  does not define it.
\<close>

record config =
  SPOT_PRICE :: real
  PAWN_PAYOUT_PCT :: real
  NUMISMATIC_PAYOUT_PCT :: real
  BID_OFFSET :: real
  MIN_MARGIN_PCT :: real
  PRICE_CAPTURE_ONLY_IF_BIDS :: bool
  PRICE_CAPTURE_BUMP_PCT :: real
  EMA_ALPHA :: real
  PRICE_CAPTURE_MAX_MINUTES :: "real option"
  PROS_MAX_TOTAL :: "real option"
  PROS_MIN_DEALER_MARGIN_PCT :: real
  PROS_MIN_SCORE :: int
  PROS_CAT3_MISPRICE_TOL_PCT :: real
  PROS_CAT3_MISPRICE_BONUS :: int
  PROS_CAT3_REQUIRE_ENDING_SOON :: bool
  PROS_CAT3_MAX_MINUTES :: int
  PROS_HARD_DISQUALIFY_KEYWORDS :: "string list"
  PROS_DISQUALIFY_KEYWORDS :: "string list"
  PROS_DISQUALIFY_REGEX :: "rx list"
  PROS_HYPE_KEYWORDS :: "string list"
  PROS_UNDERDESCRIBED_KEYWORDS :: "string list"
  PROS_HIGH_GRADE_KEYWORDS :: "string list"
  PRICE_CAPTURE_DISQUALIFY_KEYWORDS :: "string list"
  PRICE_CAPTURE_DISQUALIFY_REGEX :: "rx list"

section \<open>silver_math: quantity and weight inference, melt valuation\<close>

definition ASW_HALF_DOLLAR :: real where "ASW_HALF_DOLLAR = 0.36169"
definition ASW_SILVER_DOLLAR :: real where "ASW_SILVER_DOLLAR = 0.77344"
definition ASW_SILVER_EAGLE :: real where "ASW_SILVER_EAGLE = 0.99"

definition digits13 :: rx where
  "digits13 = Seq (Grp (Rep Digit 1 (Some 3))) (NLook (Lit ''.''))"

definition quantity_patterns :: "rx list" where
  "quantity_patterns =
    [seqs [WordB, Lit ''lot'', Rep Space 1 None, Lit ''of'', Rep Space 1 None, digits13, WordB],
     seqs [WordB, Lit ''roll'', Rep Space 1 None, Lit ''of'', Rep Space 1 None, digits13, WordB],
     seqs [WordB, digits13, Rep Space 1 None, Lit ''coin'', Opt (Lit ''s''), WordB],
     seqs [WordB, digits13, Rep Space 1 None, Lit ''piece'', Opt (Lit ''s''), WordB],
     seqs [Lit ''('', digits13, Lit '')''],
     seqs [WordB, digits13, Rep Space 0 None, Cls (OneOf ''xX''), WordB],
     seqs [WordB, Cls (OneOf ''xX''), Rep Space 0 None, digits13, WordB],
     seqs [WordB, Lit ''qty'', Rep (Union (OneOf '':'') Space) 0 None, digits13, WordB],
     seqs [WordB, digits13, Rep Space 0 None, Lit ''pcs'', WordB]]"

fun first_quantity :: "rx list \<Rightarrow> string \<Rightarrow> int" where
  "first_quantity [] t = 1"
| "first_quantity (pat # pats) t =
     (case re_search False pat t of
        None \<Rightarrow> first_quantity pats t
      | Some m \<Rightarrow>
          (case group1 t m of
             None \<Rightarrow> first_quantity pats t
           | Some d \<Rightarrow>
               (let qty = int_of_digits d
                in if 1 < qty \<and> qty \<le> 600 then qty else first_quantity pats t)))"

definition extract_quantity_from_title :: "string \<Rightarrow> int" where
  "extract_quantity_from_title ttl =
     (if ttl = [] then 1 else first_quantity quantity_patterns (lower ttl))"

definition half_tokens :: "string list" where
  "half_tokens = [''half dollar'', ''half-dollar'', ''50c'', [CHR ''5'', CHR ''0'', CHR 0xC2, CHR 0xA2],
                  '' 50 c'', '' 50c'']"

definition dollar_tokens :: "string list" where
  "dollar_tokens = [''$1'', ''dollar'', ''morgan'', ''peace'']"

definition detect_oz_per_coin_from_title :: "string \<Rightarrow> real" where
  "detect_oz_per_coin_from_title ttl =
     (let t = lower ttl
      in if any_in half_tokens t then ASW_HALF_DOLLAR
         else if contains t ''silver eagle'' \<or> contains t ''american eagle'' then ASW_SILVER_EAGLE
         else if any_in dollar_tokens t then ASW_SILVER_DOLLAR
         else if contains t ''seated'' then ASW_HALF_DOLLAR
         else ASW_HALF_DOLLAR)"

definition compute_melt_value :: "real \<Rightarrow> real \<Rightarrow> real" where
  "compute_melt_value oz spot = oz * spot"

definition compute_payout :: "real \<Rightarrow> real \<Rightarrow> real" where
  "compute_payout mv payout_pct = mv * (payout_pct / 100)"

definition compute_profit :: "real \<Rightarrow> real \<Rightarrow> real" where
  "compute_profit payout cost = payout - cost"

definition compute_margin_pct :: "real \<Rightarrow> real \<Rightarrow> real" where
  "compute_margin_pct p cost = (if cost \<le> 0 then 0 else p / cost * 100)"

definition compute_recommended_max_total :: "real \<Rightarrow> real \<Rightarrow> real" where
  "compute_recommended_max_total payout min_margin =
     (let m = max 0 (min_margin / 100)
      in if m \<le> 0 then py_round payout 2 else py_round (payout / (1 + m)) 2)"

definition compute_recommended_max_item_only :: "real \<Rightarrow> real \<Rightarrow> real" where
  "compute_recommended_max_item_only rmt ship = py_round (max 0 (rmt - ship)) 2"

definition enrich_listing_silver_fields :: "listing \<Rightarrow> listing" where
  "enrich_listing_silver_fields l =
     (let l1 = (if quantity l = 0 \<or> quantity l < 1
                then l\<lparr>quantity := extract_quantity_from_title (title l)\<rparr> else l)
      in if oz_per_coin l1 = 0 \<or> oz_per_coin l1 \<le> 0
         then l1\<lparr>oz_per_coin := detect_oz_per_coin_from_title (title l1)\<rparr> else l1)"

text \<open>The dictionary that \<open>calc_silver\<close> returns.\<close>

record silver_calc =
  calc_quantity :: int
  calc_oz_per_coin :: real
  total_oz :: real
  melt_value :: real
  melt_payout :: real
  effective_cost :: real
  profit :: real
  margin_pct :: real
  rec_max_total :: real
  rec_max_item :: real
  profit_at_rec_max :: real
  margin_at_rec_max :: real

text \<open>
  \<open>calc_silver\<close> enriches the listing in place and reads the enriched fields; the
  keyword arguments default to the configuration.  The minimum margin always comes from
  the configuration.
\<close>

definition calc_silver :: "config \<Rightarrow> listing \<Rightarrow> real option \<Rightarrow> real option \<Rightarrow> real option \<Rightarrow> silver_calc" where
  "calc_silver cfg l0 spot_price payout_pct bid_offset =
     (let l = enrich_listing_silver_fields l0;
          spot = (case spot_price of Some v \<Rightarrow> v | None \<Rightarrow> SPOT_PRICE cfg);
          payout = (case payout_pct of Some v \<Rightarrow> v | None \<Rightarrow> PAWN_PAYOUT_PCT cfg);
          offset = (case bid_offset of Some v \<Rightarrow> v | None \<Rightarrow> BID_OFFSET cfg);
          qty = (if quantity l = 0 then 1 else quantity l);
          oz_per = oz_per_coin l;
          oz = of_int qty * oz_per;
          mv = compute_melt_value oz spot;
          mp = compute_payout mv payout;
          cost = total_price l + offset;
          pr = compute_profit mp cost;
          mg = compute_margin_pct pr cost;
          rmt = compute_recommended_max_total mp (MIN_MARGIN_PCT cfg);
          rmi = compute_recommended_max_item_only rmt (shipping l);
          profit_at_rec = mp - rmt;
          margin_at_rec = compute_margin_pct profit_at_rec (if 0 < rmt then rmt else 0)
      in \<lparr>calc_quantity = qty, calc_oz_per_coin = oz_per, total_oz = oz, melt_value = mv,
          melt_payout = mp, effective_cost = cost, profit = pr, margin_pct = mg,
          rec_max_total = rmt, rec_max_item = rmi, profit_at_rec_max = profit_at_rec,
          margin_at_rec_max = margin_at_rec\<rparr>)"

section \<open>price_store: the EMA price memory\<close>

text \<open>
  An entry is the five-element list \<open>[ema_price, samples, last_total_price, last_updated,
  observers_total]\<close>; the store maps benchmark keys to entries.  \<open>now\<close> is the value of
  \<open>now_ts()\<close>.
\<close>

record entry =
  ema_price :: real
  samples :: int
  last_total_price :: real
  last_updated :: int
  observers_total :: int

type_synonym store = "string \<rightharpoonup> entry"

definition update_ema_entry :: "int \<Rightarrow> entry option \<Rightarrow> real \<Rightarrow> int \<Rightarrow> real \<Rightarrow> entry" where
  "update_ema_entry now existing new_total_price bid_count alpha =
     (case existing of
        None \<Rightarrow>
          \<lparr>ema_price = py_round new_total_price 2, samples = 1,
           last_total_price = py_round new_total_price 2, last_updated = now,
           observers_total = bid_count\<rparr>
      | Some e \<Rightarrow>
          (let ema = alpha * new_total_price + (1 - alpha) * ema_price e;
               n = samples e + 1;
               observers = observers_total e + bid_count
           in \<lparr>ema_price = py_round ema 2, samples = n,
               last_total_price = py_round new_total_price 2, last_updated = now,
               observers_total = observers\<rparr>))"

text \<open>\<open>update_price\<close> mutates the store in place; the model returns the flag and the store.\<close>

definition update_price :: "config \<Rightarrow> int \<Rightarrow> store \<Rightarrow> string \<Rightarrow> real option \<Rightarrow> int \<Rightarrow> bool \<times> store" where
  "update_price cfg now st key price bid_count =
     (if key = [] then (False, st)
      else if PRICE_CAPTURE_ONLY_IF_BIDS cfg \<and> bid_count < 1 then (False, st)
      else (case price of
              None \<Rightarrow> (False, st)
            | Some tp \<Rightarrow>
                if tp \<le> 0 then (False, st)
                else (let bump = PRICE_CAPTURE_BUMP_PCT cfg;
                          bumped_total = tp * (1 + bump)
                      in (True, st(key \<mapsto> update_ema_entry now (st key) bumped_total bid_count
                                                  (EMA_ALPHA cfg))))))"

definition lookup_ema :: "store \<Rightarrow> string \<Rightarrow> real option" where
  "lookup_ema st key = map_option ema_price (st key)"

definition lookup_observers :: "store \<Rightarrow> string \<Rightarrow> int option" where
  "lookup_observers st key = map_option observers_total (st key)"

definition get_ema_value_and_observers :: "store \<Rightarrow> string \<Rightarrow> real option \<times> int option" where
  "get_ema_value_and_observers st key = (lookup_ema st key, lookup_observers st key)"

text \<open>\<open>capture_updates\<close> over the dictionary \<open>updates\<close>, in its insertion order.\<close>

fun capture_updates :: "config \<Rightarrow> int \<Rightarrow> store \<Rightarrow> (string \<times> real \<times> int) list \<Rightarrow> nat \<times> store" where
  "capture_updates cfg now st [] = (0, st)"
| "capture_updates cfg now st ((k, p, b) # us) =
     (case update_price cfg now st k (Some p) b of
        (ok, st1) \<Rightarrow>
          (case capture_updates cfg now st1 us of
             (n, st2) \<Rightarrow> ((if ok then Suc n else n), st2)))"

section \<open>numismatic_rules: coin identity\<close>

definition two_digits :: rx where
  "two_digits = Rep Digit 2 (Some 2)"

definition YEAR_RE :: rx where
  "YEAR_RE = seqs [WordB,
                   Grp (Alt (Seq (Lit ''17'') two_digits)
                       (Alt (Seq (Lit ''18'') two_digits)
                       (Alt (Seq (Lit ''19'') two_digits)
                            (Seq (Lit ''20'') two_digits)))),
                   WordB]"

definition MINT_RE :: rx where
  "MINT_RE = seqs [Alt Bol (Cls (Union Space (OneOf ''-''))), Rep Space 0 None,
                   Grp (Alt (Lit ''cc'') (Cls (OneOf ''dso''))), WordB]"

definition dot_star :: rx where
  "dot_star = Rep AnyCh 0 None"

definition COIN_PATTERNS :: "(rx \<times> string) list" where
  "COIN_PATTERNS =
    [(seqs [WordB, Lit ''morgan'', WordB], ''Morgan Dollar''),
     (seqs [WordB, Lit ''peace'', WordB], ''Peace Dollar''),
     (Alt (seqs [WordB, Lit ''barber'', WordB, dot_star, WordB, Lit ''half'', WordB])
          (seqs [WordB, Lit ''barber'', Rep Space 0 None, Lit ''half'', WordB]),
      ''Barber Half''),
     (seqs [WordB, Lit ''seated'', WordB, dot_star, WordB, Lit ''liberty'', WordB, dot_star,
            WordB, Lit ''half'', WordB], ''Seated Liberty Half''),
     (seqs [WordB, Lit ''seated'', WordB, dot_star, WordB, Lit ''liberty'', WordB, dot_star,
            WordB, Lit ''dollar'', WordB], ''Seated Liberty Dollar''),
     (Alt (seqs [WordB, Lit ''walking'', WordB, dot_star, WordB, Lit ''liberty'', WordB, dot_star,
                 WordB, Lit ''half'', WordB])
          (seqs [WordB, Lit ''walker'', WordB, dot_star, WordB, Lit ''half'', WordB]),
      ''Walking Liberty Half'')]"

definition DEFAULT_MINT :: string where
  "DEFAULT_MINT = ''P''"

definition norm_mint :: "string \<Rightarrow> string" where
  "norm_mint m0 =
     (let m = upper (strip m0)
      in if m = [] then DEFAULT_MINT
         else if m = ''PHILADELPHIA'' then ''P''
         else if m \<in> set [''O'', ''D'', ''S'', ''P'', ''CC''] then m
         else (let m2 = filter (\<lambda>c. c \<noteq> CHR '' '') m
               in if m2 = ''CC'' then ''CC'' else m2))"

fun first_coin_type :: "(rx \<times> string) list \<Rightarrow> string \<Rightarrow> string option" where
  "first_coin_type [] t = None"
| "first_coin_type ((pat, ctype) # ps) t =
     (if re_found True pat t then Some ctype else first_coin_type ps t)"

definition year_in_window :: "string \<Rightarrow> int \<Rightarrow> bool" where
  "year_in_window ct y =
     (\<not> (ct = ''Morgan Dollar'' \<and> \<not> (1878 \<le> y \<and> y \<le> 1921)) \<and>
      \<not> (ct = ''Peace Dollar'' \<and> \<not> (1921 \<le> y \<and> y \<le> 1935)) \<and>
      \<not> (ct = ''Barber Half'' \<and> \<not> (1892 \<le> y \<and> y \<le> 1915)) \<and>
      \<not> (ct = ''Seated Liberty Half'' \<and> \<not> (1839 \<le> y \<and> y \<le> 1891)) \<and>
      \<not> (ct = ''Seated Liberty Dollar'' \<and> \<not> (1840 \<le> y \<and> y \<le> 1873)) \<and>
      \<not> (ct = ''Walking Liberty Half'' \<and> \<not> (1916 \<le> y \<and> y \<le> 1947)))"

definition detect_coin_identity :: "string \<Rightarrow> (string \<times> int \<times> string) option" where
  "detect_coin_identity ttl =
     (let t = strip ttl
      in if t = [] then None
         else (case first_coin_type COIN_PATTERNS t of
                 None \<Rightarrow> None
               | Some ct \<Rightarrow>
                   (case re_search False YEAR_RE t of
                      None \<Rightarrow> None
                    | Some ym \<Rightarrow>
                        (let y = int_of_digits (the_default [] (group1 t ym));
                             mnt = norm_mint (case re_search True MINT_RE t of
                                               None \<Rightarrow> DEFAULT_MINT
                                             | Some mm \<Rightarrow> the_default [] (group1 t mm));
                             tl = lower t
                         in if contains tl ''proof'' \<or> contains tl ''replica'' \<or> contains tl ''copy''
                            then None
                            else if \<not> year_in_window ct y then None
                            else Some (ct, y, mnt)))))"

definition make_benchmark_key :: "string \<Rightarrow> int \<Rightarrow> string \<Rightarrow> string" where
  "make_benchmark_key ct y m = ct @ ''|'' @ str_int y @ ''|'' @ norm_mint m"

record NumismaticOverride =
  coin_type :: string
  year :: int
  mint :: string
  display_name :: string

definition check_numismatic_override :: "string \<Rightarrow> NumismaticOverride option" where
  "check_numismatic_override ttl =
     (case detect_coin_identity ttl of
        None \<Rightarrow> None
      | Some (ct, y, m) \<Rightarrow>
          Some \<lparr>coin_type = ct, year = y, mint = m,
                display_name = ct @ '' '' @ str_int y @ ''-'' @ m\<rparr>)"

section \<open>prospect_score: the prospect scorer\<close>

record ProspectScore =
  score :: int
  reasons :: "string list"

definition has_any :: "string \<Rightarrow> string list \<Rightarrow> bool" where
  "has_any ttl needles =
     (let t = lower ttl
      in list_ex (\<lambda>n. let n2 = lower (strip n) in n2 \<noteq> [] \<and> contains t n2) needles)"

definition matches_any_regex :: "string \<Rightarrow> rx list \<Rightarrow> bool" where
  "matches_any_regex ttl patterns = list_ex (\<lambda>pat. re_found True pat ttl) patterns"

definition minutes_left :: "real \<Rightarrow> listing \<Rightarrow> int option" where
  "minutes_left now l =
     (let by_text =
            (let s = lower (time_left l)
             in case re_search False (seqs [Grp (Rep Digit 1 (Some 4)), Rep Space 0 None, Lit ''m'', WordB]) s of
                  Some m \<Rightarrow> map_option int_of_digits (group1 s m)
                | None \<Rightarrow>
                    (case re_search False (seqs [Grp (Rep Digit 1 (Some 3)), Rep Space 0 None, Lit ''min'', WordB]) s of
                       Some m \<Rightarrow> map_option int_of_digits (group1 s m)
                     | None \<Rightarrow> None))
      in case end_time_ts l of
           None \<Rightarrow> by_text
         | Some end_ts \<Rightarrow>
             (let sec = end_ts - now
              in if 0 \<le> sec then Some \<lfloor>sec / 60\<rfloor> else by_text))"

text \<open>
  The additive part of \<open>score_prospect\<close>, from the base score 50 to the value before the
  clamp, with the reasons in the order they are appended.
\<close>

definition score_signals :: "config \<Rightarrow> real \<Rightarrow> listing \<Rightarrow> real \<Rightarrow> real \<Rightarrow> int \<times> string list" where
  "score_signals cfg now l fmv dv =
     (let ttl = title l; total = total_price l; nbids = bids l
      in
     (let dm = (dv - total) / total * 100;
          (s1, r1) =
            (if 75 \<le> dm then (50 + 25, [''huge-dealer-margin''])
             else if 50 \<le> dm then (50 + 18, [''dealer-margin>=50''])
             else if 35 \<le> dm then (50 + 10, [''dealer-margin>=35''])
             else if 20 \<le> dm then (50 + 4, [''dealer-margin>=20''])
             else (50 - 20, [''thin-dealer-margin'']));
          gap = (fmv - total) / total * 100;
          (s2, r2) =
            (if 100 \<le> gap then (s1 + 10, r1 @ [''fmv-gap>=100''])
             else if 50 \<le> gap then (s1 + 6, r1 @ [''fmv-gap>=50''])
             else (s1, r1));
          (s3, r3) =
            (if nbids \<le> 0 then (s2 + 4, r2 @ [''unnoticed(0-bids)''])
             else if nbids \<le> 2 then (s2 + 7, r2 @ [''few-bids''])
             else if nbids \<le> 10 then (s2 + 4, r2 @ [''some-bids''])
             else (s2 + 1, r2 @ [''many-bids'']));
          (s4, r4) =
            (if has_any ttl (PROS_HYPE_KEYWORDS cfg)
             then (s3 - 18, r3 @ [''hype-language'']) else (s3, r3));
          (s5, r5) =
            (if has_any ttl (PROS_UNDERDESCRIBED_KEYWORDS cfg)
             then (s4 + 12, r4 @ [''under-described'']) else (s4, r4));
          (s6, r6) =
            (if has_any ttl (PROS_HIGH_GRADE_KEYWORDS cfg)
             then (s5 - 14, r5 @ [''high-grade-signals'']) else (s5, r5));
          (s7, r7) =
            (if has_any ttl (PROS_HIGH_GRADE_KEYWORDS cfg)
             then (let tol_pct = PROS_CAT3_MISPRICE_TOL_PCT cfg / 100
                   in if total \<le> fmv * (1 + max 0 tol_pct)
                      then (let soon_ok =
                                  (if PROS_CAT3_REQUIRE_ENDING_SOON cfg
                                   then (case minutes_left now l of
                                           None \<Rightarrow> False
                                         | Some mins \<Rightarrow> mins \<le> PROS_CAT3_MAX_MINUTES cfg)
                                   else True)
                            in if soon_ok
                               then (s6 + max 0 (PROS_CAT3_MISPRICE_BONUS cfg),
                                     r6 @ [''premium-terms-priced-like-raw''])
                               else (s6, r6))
                      else (s6, r6))
             else (s6, r6));
          tleft = lower (time_left l);
          (s8, r8) =
            (if contains tleft ''m left'' \<or> contains tleft ''min''
             then (s7 + 3, r7 @ [''ending-soon'']) else (s7, r7))
      in (s8, r8)))"

definition score_prospect :: "config \<Rightarrow> real \<Rightarrow> listing \<Rightarrow> real option \<Rightarrow> real option \<Rightarrow> ProspectScore" where
  "score_prospect cfg now l fmv_floor dealer_value =
     (let ttl = title l; total = total_price l
      in case (fmv_floor, dealer_value) of
           (None, _) \<Rightarrow> \<lparr>score = 0, reasons = [''missing-anchors'']\<rparr>
         | (Some _, None) \<Rightarrow> \<lparr>score = 0, reasons = [''missing-anchors'']\<rparr>
         | (Some fmv, Some dv) \<Rightarrow>
             if total \<le> 0 then \<lparr>score = 0, reasons = [''missing-anchors'']\<rparr>
             else if has_any ttl (PROS_HARD_DISQUALIFY_KEYWORDS cfg @ PROS_DISQUALIFY_KEYWORDS cfg)
             then \<lparr>score = 0, reasons = [''pros-hard-disqualify-keyword'']\<rparr>
             else if matches_any_regex ttl (PROS_DISQUALIFY_REGEX cfg)
             then \<lparr>score = 0, reasons = [''pros-hard-disqualify-regex'']\<rparr>
             else (case score_signals cfg now l fmv dv of
                     (s, r) \<Rightarrow> \<lparr>score = max 0 (min 100 s), reasons = r\<rparr>))"

section \<open>hit_engine: the classification orchestrator\<close>

definition make_key :: "string \<Rightarrow> int \<Rightarrow> string \<Rightarrow> string" where
  "make_key ct y m = ct @ ''|'' @ str_int y @ ''|'' @ m"

text \<open>
  \<open>_resolve_fmv\<close> reads the price memory and then the table
  \<open>STATIC_NUMISMATIC_DEFAULTS\<close>, looked up by the benchmark key string.
\<close>

definition resolve_fmv :: "store \<Rightarrow> (string \<rightharpoonup> real) \<Rightarrow> string \<Rightarrow> int \<Rightarrow> string \<Rightarrow> real option \<times> string option" where
  "resolve_fmv st static ct y m =
     (let key = make_key ct y m
      in case get_ema_value_and_observers st key of
           (Some ema, Some observers) \<Rightarrow> (Some ema, Some (''Offline EMA o.'' @ str_int observers))
         | (Some ema, None) \<Rightarrow> (Some ema, Some ''Offline EMA'')
         | (None, _) \<Rightarrow>
             (case static key of
                Some v \<Rightarrow> (Some v, Some ''Static Default'')
              | None \<Rightarrow> (None, None)))"

text \<open>
  An \<open>Evaluated\<close> record with its normalised dictionary: the melt metrics copied from
  \<open>calc_silver\<close> and the numismatic overlay.  The reference link of the dictionary is
  left out.
\<close>

record evaluated =
  ev_listing :: listing
  silver :: silver_calc
  numismatic_override :: "string option"
  fmv_floor :: "real option"
  fmv_source :: "string option"
  dealer_value :: "real option"
  dealer_profit :: "real option"
  dealer_margin_pct :: "real option"
  dealer_rec_max_total :: "real option"
  dealer_rec_max_item :: "real option"
  dealer_profit_at_rec_max :: "real option"
  dealer_margin_at_rec_max :: "real option"
  is_hit :: bool
  is_prospect :: bool

definition CAT3_REASON :: string where
  "CAT3_REASON = ''premium-terms-priced-like-raw''"

text \<open>The prospect decision of the loop body, from the resolved anchors.\<close>

definition prospect_flag :: "config \<Rightarrow> real \<Rightarrow> listing \<Rightarrow> real option \<Rightarrow> real option \<Rightarrow> real option \<Rightarrow> bool" where
  "prospect_flag cfg now l fmv dv dmp =
     (if dv \<noteq> None \<and> fmv \<noteq> None \<and> 0 < total_price l
      then (let total = total_price l
            in if (case PROS_MAX_TOTAL cfg of None \<Rightarrow> True | Some cap \<Rightarrow> total \<le> cap)
               then (let dm = the_default 0 dmp;
                         ps = score_prospect cfg now l fmv dv;
                         cat3_override = (CAT3_REASON \<in> set (reasons ps));
                         base_ok = (PROS_MIN_DEALER_MARGIN_PCT cfg \<le> dm)
                     in (base_ok \<or> cat3_override) \<and> PROS_MIN_SCORE cfg \<le> score ps)
               else False)
      else False)"

definition evaluate_one :: "config \<Rightarrow> real \<Rightarrow> store \<Rightarrow> (string \<rightharpoonup> real) \<Rightarrow> listing \<Rightarrow> evaluated" where
  "evaluate_one cfg now st static l0 =
     (let sc = calc_silver cfg l0 None None None;
          l = enrich_listing_silver_fields l0;
          override = check_numismatic_override (title l);
          (fmv, src) = (case override of
                          None \<Rightarrow> (None, None)
                        | Some ov \<Rightarrow> resolve_fmv st static (coin_type ov) (year ov) (mint ov));
          dv = map_option (\<lambda>f. f * (NUMISMATIC_PAYOUT_PCT cfg / 100)) fmv;
          dp = map_option (\<lambda>v. v - total_price l) dv;
          dmp = (if 0 < total_price l then map_option (\<lambda>p. p / total_price l * 100) dp else None);
          m = max 0 (MIN_MARGIN_PCT cfg / 100);
          drmt = map_option (\<lambda>v. py_round (v / (1 + m)) 2) dv;
          drmi = map_option (\<lambda>t. py_round (max 0 (t - shipping l)) 2) drmt;
          dpar = (case (dv, drmt) of (Some v, Some t) \<Rightarrow> Some (py_round (v - t) 2) | _ \<Rightarrow> None);
          dmar = (case (dpar, drmt) of
                    (Some p, Some t) \<Rightarrow> if t \<noteq> 0 then Some (p / t * 100) else None
                  | _ \<Rightarrow> None);
          hit = (total_price l \<le> rec_max_total sc);
          pros = prospect_flag cfg now l fmv dv dmp
      in \<lparr>ev_listing = l, silver = sc, numismatic_override = map_option display_name override,
          fmv_floor = fmv, fmv_source = src, dealer_value = dv, dealer_profit = dp,
          dealer_margin_pct = dmp, dealer_rec_max_total = drmt, dealer_rec_max_item = drmi,
          dealer_profit_at_rec_max = dpar, dealer_margin_at_rec_max = dmar,
          is_hit = hit, is_prospect = pros\<rparr>)"




section \<open>silver_monitor: price capture of a scan\<close>

definition HARD_DISQUALIFY_RE :: rx where
  "HARD_DISQUALIFY_RE =
     seqs [WordB,
           alts [Lit ''holed'', Lit ''hole'', Lit ''pierced'', Lit ''drilled'', Lit ''copy'',
                 Lit ''replica'', Lit ''clad'', Lit ''plated''],
           WordB]"

definition accessory_terms :: "string list" where
  "accessory_terms = [''no coins'', ''coin book'', ''folder'', ''album'', ''money clip'',
                      ''keychain'', ''cutout'', ''pendant'', ''necklace'']"

definition capture_disqualified :: "config \<Rightarrow> string \<Rightarrow> bool" where
  "capture_disqualified cfg ttl =
     (let t = lower ttl
      in list_ex (\<lambda>kw. kw \<noteq> [] \<and> contains t (lower kw)) (PRICE_CAPTURE_DISQUALIFY_KEYWORDS cfg)
         \<or> list_ex (\<lambda>pat. re_found False pat ttl) (PRICE_CAPTURE_DISQUALIFY_REGEX cfg))"

text \<open>
  \<open>_dedupe_key_from_listing\<close>: a \<open>Listing\<close> has no attribute \<open>url\<close>, so the key is the item
  identity or else the title.
\<close>

definition dedupe_key_from_listing :: "listing \<Rightarrow> string" where
  "dedupe_key_from_listing l =
     (case item_id l of
        Some i \<Rightarrow> if i \<noteq> [] then ''itm:'' @ i else ''title:'' @ lower (strip (title l))
      | None \<Rightarrow> ''title:'' @ lower (strip (title l)))"

text \<open>
  The eligibility gates of the capture loop for one listing: the benchmark key and the
  pair (capture price, bids) it offers, or \<open>None\<close> when a gate says \<open>continue\<close>.
\<close>

definition capture_candidate :: "config \<Rightarrow> real \<Rightarrow> listing \<Rightarrow> (string \<times> real \<times> int) option" where
  "capture_candidate cfg now l =
     (if re_found True HARD_DISQUALIFY_RE (title l) then None
      else if any_in accessory_terms (lower (title l)) then None
      else if capture_disqualified cfg (title l) then None
      else if extract_quantity_from_title (title l) \<noteq> 1 then None
      else if (case PRICE_CAPTURE_MAX_MINUTES cfg of
                 None \<Rightarrow> False
               | Some cap_minutes \<Rightarrow>
                   (case end_time_ts l of
                      None \<Rightarrow> True
                    | Some end_ts \<Rightarrow> end_ts - now < 0 \<or> cap_minutes * 60 < end_ts - now))
      then None
      else if PRICE_CAPTURE_ONLY_IF_BIDS cfg \<and> bids l < 1 then None
      else (case detect_coin_identity (title l) of
              None \<Rightarrow> None
            | Some (ct, y, m) \<Rightarrow> Some (make_benchmark_key ct y m, item_price l, bids l)))"

fun dict_set :: "('k \<times> 'v) list \<Rightarrow> 'k \<Rightarrow> 'v \<Rightarrow> ('k \<times> 'v) list" where
  "dict_set [] k v = [(k, v)]"
| "dict_set ((k', v') # kvs) k v = (if k' = k then (k, v) # kvs else (k', v') # dict_set kvs k v)"

text \<open>
  The capture loop: per benchmark key the candidate with more bids wins, on a tie the
  cheaper one.  The state is the dictionary \<open>updates\<close> and the set \<open>capture_seen\<close>.
\<close>

fun collect_updates :: "config \<Rightarrow> real \<Rightarrow> (string \<times> real \<times> int) list \<times> string set \<Rightarrow> listing list \<Rightarrow> (string \<times> real \<times> int) list \<times> string set" where
  "collect_updates cfg now acc [] = acc"
| "collect_updates cfg now (updates, capture_seen) (l # ls) =
     (let lk = dedupe_key_from_listing l
      in if lk \<in> capture_seen then collect_updates cfg now (updates, capture_seen) ls
         else (case capture_candidate cfg now l of
                 None \<Rightarrow> collect_updates cfg now (updates, capture_seen) ls
               | Some (key, price, nbids) \<Rightarrow>
                   (case map_of updates key of
                      None \<Rightarrow>
                        collect_updates cfg now (dict_set updates key (price, nbids), insert lk capture_seen) ls
                    | Some (prev_total, prev_bids) \<Rightarrow>
                        if prev_bids < nbids \<or> (nbids = prev_bids \<and> price < prev_total)
                        then collect_updates cfg now (dict_set updates key (price, nbids), insert lk capture_seen) ls
                        else collect_updates cfg now (updates, capture_seen) ls)))"

text \<open>
  The price capture of \<open>run_once\<close> on the filtered listings: it returns the number of
  keys that \<open>capture_updates\<close> wrote and the store as saved.
\<close>

definition run_capture :: "config \<Rightarrow> real \<Rightarrow> store \<Rightarrow> listing list \<Rightarrow> nat \<times> store" where
  "run_capture cfg now st filtered =
     (let updates = fst (collect_updates cfg now ([], {}) filtered)
      in if updates \<noteq> [] then capture_updates cfg \<lfloor>now\<rfloor> st updates else (0, st))"

section \<open>config: the shipped settings\<close>

definition coin_words :: rx where
  "coin_words = alts [Lit ''coin'', Lit ''coins'', Lit ''pc'', Lit ''pcs'', Lit ''piece'', Lit ''pieces'']"

definition default_config :: config where
  "default_config =
     \<lparr>SPOT_PRICE = 62, PAWN_PAYOUT_PCT = 82, NUMISMATIC_PAYOUT_PCT = 60, BID_OFFSET = 0,
      MIN_MARGIN_PCT = 12,
      PRICE_CAPTURE_ONLY_IF_BIDS = True, PRICE_CAPTURE_BUMP_PCT = 0.08, EMA_ALPHA = 0.40,
      PRICE_CAPTURE_MAX_MINUTES = Some 30,
      PROS_MAX_TOTAL = Some 150,
      PROS_MIN_DEALER_MARGIN_PCT = 5, PROS_MIN_SCORE = 60,
      PROS_CAT3_MISPRICE_TOL_PCT = 5, PROS_CAT3_MISPRICE_BONUS = 35,
      PROS_CAT3_REQUIRE_ENDING_SOON = True, PROS_CAT3_MAX_MINUTES = 30,
      PROS_HARD_DISQUALIFY_KEYWORDS = [],
      PROS_DISQUALIFY_KEYWORDS =
        [''holed'', ''hole'', ''drilled'', ''pierced'', ''plugged'',
         ''bent'', ''damaged'', ''broken'', ''scratched'', ''details'',
         ''harshly cleaned'', ''cleaned'',
         ''replica'', ''copy'', ''fantasy'', ''reproduction'',
         ''plated'', ''clad'', ''silver plate'', ''silver plated'', ''silver tone'', ''silver toned'',
         ''gold tone'', ''gold toned''],
      PROS_DISQUALIFY_REGEX =
        [seqs [WordB, alts [Lit ''replica'', Lit ''copy'', Lit ''fantasy'', Lit ''reproduction''], WordB]],
      PROS_HYPE_KEYWORDS =
        [''monster'', ''wow'', ''elite'', ''rare!!'', ''superb'', ''amazing'',
         ''beautiful'', ''blazing'', ''choice'', ''gem'', ''premium'', ''rare'', ''key date'',
         ''clearance'', ''start'', ''starts'', ''start$'', ''start $'', ''nr'', ''no reserve'',
         ''ms'', ''pf'', ''proof'', ''dmpl'', ''pl'', ''deep mirror'',
         ''bu'', ''unc'', ''uncirculated'', ''brilliant uncirculated'',
         ''pcgs'', ''ngc'', ''anacs'', ''icg'', ''cac'', ''slab'', ''graded'', ''certified''],
      PROS_UNDERDESCRIBED_KEYWORDS =
        [''estate'', ''old collection'', ''attic'', ''found'', ''as is'', ''no reserve'',
         ''better date'', ''scarce date''],
      PROS_HIGH_GRADE_KEYWORDS =
        [''pcgs'', ''ngc'', ''anacs'', ''icg'', ''cac'',
         ''ms'', ''ms-'', ''ms60'', ''ms61'', ''ms62'', ''ms63'', ''ms64'', ''ms65'', ''ms66'',
         ''ms67'', ''ms68'', ''ms69'', ''ms70'',
         ''au'', ''a.u.'', ''about uncirculated'', ''unc'', ''uncirculated'', ''bu'',
         ''brilliant uncirculated'',
         ''proof'', ''pr'', ''pf'', ''deep cameo'', ''dcam'', ''ultra cameo'', ''ucam'', ''cameo'',
         ''pl'', ''prooflike'', ''dmpl'', ''deep mirror prooflike'',
         ''gem'', ''choice'', ''blast white'', ''monster toning'', ''full bands'', ''full bell lines''],
      PRICE_CAPTURE_DISQUALIFY_KEYWORDS =
        [''lot'', ''lots'', ''group'', ''collection'', ''estate'', ''hoard'',
         ''mixed'', ''bundle'', ''set'', ''roll'', ''bag'', ''coins'',
         ''bu'', ''brilliant uncirculated'', ''unc'', ''uncirculated'',
         ''au'', ''xf'', ''ef'', ''ms'', ''choice'', ''gem'',
         ''pl'', ''dmpl'', ''proof'',
         ''pcgs'', ''ngc'', ''anacs'', ''icg'', ''slab'', ''graded'', ''certified'', ''holder'',
         ''no coins'', ''coin book'', ''folder'', ''album'',
         ''money clip'', ''keychain'', ''cutout'', ''pendant'', ''necklace''],
      PRICE_CAPTURE_DISQUALIFY_REGEX =
        [seqs [WordB, Rep Digit 1 None, Rep Space 0 None, Lit ''x'', WordB],
         seqs [WordB, Rep Digit 1 None, Rep Space 0 None, coin_words, WordB],
         seqs [Lit ''('', Rep Space 0 None, Rep Digit 1 None, Rep Space 0 None, coin_words,
               Rep Space 0 None, Opt (Lit ''lot''), Rep Space 0 None, Lit '')''],
         seqs [WordB, Lit ''lot'', Rep Space 0 None, Opt (Seq (Lit ''of'') (Rep Space 0 None)),
               Rep Digit 1 None, WordB],
         seqs [WordB, Lit ''ms'', Rep Space 0 None, two_digits, WordB],
         seqs [WordB, Lit ''pf'', Rep Space 0 None, two_digits, WordB]]\<rparr>"

text \<open>
  \<open>STATIC_NUMISMATIC_DEFAULTS\<close> is keyed by tuples (coin type, year, mint, grade), so it
  holds no benchmark key string.
\<close>

definition STATIC_NUMISMATIC_DEFAULTS :: "string \<rightharpoonup> real" where
  "STATIC_NUMISMATIC_DEFAULTS = Map.empty"

section \<open>Example inputs\<close>

definition listing_c1 :: listing where
  "listing_c1 = \<lparr>title = ''1921 Walking Liberty Half'', link = [], item_price = 35, shipping = 5,
     total_price = 40, bids = 0, time_left = [], item_id = None, quantity = 1,
     oz_per_coin = 0.36169, end_time_ts = None\<rparr>"

definition entry_b :: entry where
  "entry_b = \<lparr>ema_price = 54, samples = 1, last_total_price = 54, last_updated = 1765618492, observers_total = 2\<rparr>"

definition listing_b :: listing where
  "listing_b = \<lparr>title = ''1921 Morgan Dollar VG'', link = [], item_price = 50, shipping = 0,
     total_price = 50, bids = 2, time_left = ''10m left'', item_id = None, quantity = 1,
     oz_per_coin = 0, end_time_ts = Some 1765619092\<rparr>"

definition listing_lot :: listing where
  "listing_lot = \<lparr>title = ''Lot of 5 Morgan Dollars 1921'', link = [], item_price = 150, shipping = 0,
     total_price = 150, bids = 3, time_left = ''10m left'', item_id = Some ''1001'', quantity = 1,
     oz_per_coin = 0, end_time_ts = Some 1765619092\<rparr>"

definition listing_album :: listing where
  "listing_album = \<lparr>title = ''1921 Morgan Dollar album'', link = [], item_price = 9, shipping = 0,
     total_price = 9, bids = 4, time_left = ''10m left'', item_id = Some ''1002'', quantity = 1,
     oz_per_coin = 0, end_time_ts = Some 1765619092\<rparr>"

definition store_b :: store where
  "store_b = [''Morgan Dollar|1921|P'' \<mapsto>
     \<lparr>ema_price = 200, samples = 3, last_total_price = 210, last_updated = 1765618000, observers_total = 7\<rparr>]"

definition listing_replica :: listing where
  "listing_replica = \<lparr>title = ''1921 Morgan replica'', link = [], item_price = 20, shipping = 0,
     total_price = 20, bids = 0, time_left = [], item_id = None, quantity = 1,
     oz_per_coin = 0, end_time_ts = None\<rparr>"

text \<open>Scenario A: the listing as the parser builds it (no weight per coin yet), spot price 30, payout 80 percent.\<close>

definition listing_a :: listing where
  "listing_a = \<lparr>title = ''1921 Walking Liberty Half, AU, no bids'', link = [], item_price = 35,
     shipping = 5, total_price = 40, bids = 0, time_left = [], item_id = None, quantity = 1,
     oz_per_coin = 0, end_time_ts = None\<rparr>"

definition config_a :: config where
  "config_a = default_config\<lparr>SPOT_PRICE := 30, PAWN_PAYOUT_PCT := 80\<rparr>"

section \<open>Properties\<close>

subsection \<open>Evaluation rules\<close>

lemmas char_simps = lower_def lower_ch_def upper_def upper_ch_def is_upper_def is_lower_def
  is_digit_def is_space_def is_word_def ord_def char_of_def bit_Suc_0_iff strip_def

lemmas rx_simps = re_search_def re_found_def lit_ok_def at_boundary_def word_at_def group1_def
  the_default_def Let_def

subsection \<open>Rounding and enrichment\<close>

lemma round_half_even_of_int: "round_half_even (of_int k) = k"
  by (simp add: round_half_even_def)

lemma py_round_idem: "py_round (py_round x n) n = py_round x n"
  by (simp add: py_round_def round_half_even_of_int)

lemma first_quantity_ge1: "1 \<le> first_quantity ps t"
  by (induction ps) (auto simp: Let_def split: option.splits)

lemma extract_quantity_ge1: "1 \<le> extract_quantity_from_title ttl"
  by (simp add: extract_quantity_from_title_def first_quantity_ge1)

lemma enrich_quantity_ge1: "1 \<le> quantity (enrich_listing_silver_fields l)"
  using extract_quantity_ge1 [of "title l"]
  by (auto simp: enrich_listing_silver_fields_def Let_def)

lemma enrich_fields:
  "title (enrich_listing_silver_fields l) = title l"
  "total_price (enrich_listing_silver_fields l) = total_price l"
  "shipping (enrich_listing_silver_fields l) = shipping l"
  "bids (enrich_listing_silver_fields l) = bids l"
  "time_left (enrich_listing_silver_fields l) = time_left l"
  "item_price (enrich_listing_silver_fields l) = item_price l"
  "end_time_ts (enrich_listing_silver_fields l) = end_time_ts l"
  by (simp_all add: enrich_listing_silver_fields_def Let_def)

lemma enrich_quantity:
  "quantity (enrich_listing_silver_fields l) =
     (if quantity l < 1 then extract_quantity_from_title (title l) else quantity l)"
  by (auto simp: enrich_listing_silver_fields_def Let_def)

lemma enrich_oz:
  "oz_per_coin (enrich_listing_silver_fields l) =
     (if oz_per_coin l \<le> 0 then detect_oz_per_coin_from_title (title l) else oz_per_coin l)"
  by (auto simp: enrich_listing_silver_fields_def Let_def)

lemma default_config_melt:
  "SPOT_PRICE default_config = 62" "PAWN_PAYOUT_PCT default_config = 82"
  "BID_OFFSET default_config = 0" "MIN_MARGIN_PCT default_config = 12"
  "NUMISMATIC_PAYOUT_PCT default_config = 60"
  by (simp_all add: default_config_def)

lemma calc_listing_c1:
  "calc_silver default_config listing_c1 (Some 30) (Some 80) None =
     \<lparr>calc_quantity = 1, calc_oz_per_coin = 0.36169, total_oz = 0.36169, melt_value = 10.8507,
      melt_payout = 8.68056, effective_cost = 40, profit = 8.68056 - 40,
      margin_pct = (8.68056 - 40) / 40 * 100, rec_max_total = 7.75, rec_max_item = 2.75,
      profit_at_rec_max = 8.68056 - 7.75, margin_at_rec_max = (8.68056 - 7.75) / 7.75 * 100\<rparr>"
  by (simp add: calc_silver_def Let_def enrich_listing_silver_fields_def listing_c1_def
      default_config_melt compute_melt_value_def compute_payout_def compute_profit_def
      compute_margin_pct_def compute_recommended_max_total_def
      compute_recommended_max_item_only_def py_round_def round_half_even_def)

subsection \<open>Melt valuation\<close>

text \<open>
  Claim C1, as the code has it.  For every listing and configuration, with the quantity and
  the weight per coin taken from the listing (or inferred from the title when the listing
  has none), \<open>calc_silver\<close> returns melt value = quantity * weight * spot price, melt payout =
  melt value * payout percent / 100, profit = melt payout - (total price + bid offset),
  margin percent = profit / cost * 100 (0 when the cost is not positive), the recommended
  maximum total = melt payout / (1 + max(0, minimum margin) / 100) rounded to 2 decimals,
  and the recommended maximum item price = max(0, recommended total - shipping) rounded to
  2 decimals.
\<close>

theorem calc_silver_formulas:
  "let l = enrich_listing_silver_fields l0;
       c = calc_silver cfg l0 spot_price payout_pct bid_offset;
       spot = the_default (SPOT_PRICE cfg) spot_price;
       payout = the_default (PAWN_PAYOUT_PCT cfg) payout_pct;
       cost = total_price l0 + the_default (BID_OFFSET cfg) bid_offset
   in quantity l = (if quantity l0 < 1 then extract_quantity_from_title (title l0) else quantity l0)
    \<and> oz_per_coin l = (if oz_per_coin l0 \<le> 0 then detect_oz_per_coin_from_title (title l0) else oz_per_coin l0)
    \<and> melt_value c = of_int (quantity l) * oz_per_coin l * spot
    \<and> melt_payout c = melt_value c * payout / 100
    \<and> profit c = melt_payout c - cost
    \<and> margin_pct c = (if cost \<le> 0 then 0 else profit c / cost * 100)
    \<and> rec_max_total c = py_round (melt_payout c / (1 + max 0 (MIN_MARGIN_PCT cfg) / 100)) 2
    \<and> rec_max_item c = py_round (max 0 (rec_max_total c - shipping l0)) 2"
proof -
  have q: "quantity (enrich_listing_silver_fields l0) \<noteq> 0"
    using enrich_quantity_ge1 [of l0] by simp
  have m: "max 0 (MIN_MARGIN_PCT cfg / 100) = max 0 (MIN_MARGIN_PCT cfg) / 100"
    by (simp add: max_def)
  show ?thesis
    unfolding Let_def
    apply (intro conjI)
           apply (rule enrich_quantity)
          apply (rule enrich_oz)
         apply (simp_all add: calc_silver_def Let_def q enrich_fields compute_melt_value_def compute_payout_def
        compute_profit_def compute_margin_pct_def compute_recommended_max_total_def
        compute_recommended_max_item_only_def the_default_def m split: option.splits)
    done
qed

theorem calc_silver_formulas_witness:
  "melt_value (calc_silver default_config listing_c1 (Some 30) (Some 80) None) = 0.36169 * 30
   \<and> rec_max_total (calc_silver default_config listing_c1 (Some 30) (Some 80) None)
       = py_round (8.68056 / 1.12) 2"
  using calc_silver_formulas [of listing_c1 default_config "Some 30" "Some 80" None]
  by (simp add: Let_def the_default_def calc_listing_c1 default_config_melt)

text \<open>
  The recommended maximum total is not the unrounded quotient: with a melt payout of
  8.68056 and a minimum margin of 12 percent the quotient is 7.7505..., the result 7.75.
\<close>

theorem rec_max_total_unrounded_counterexample:
  "rec_max_total (calc_silver default_config listing_c1 (Some 30) (Some 80) None)
     \<noteq> melt_payout (calc_silver default_config listing_c1 (Some 30) (Some 80) None)
         / (1 + max 0 (MIN_MARGIN_PCT default_config) / 100)"
  by (simp add: calc_listing_c1 default_config_melt)

subsection \<open>Price memory\<close>

lemma default_config_capture:
  "PRICE_CAPTURE_ONLY_IF_BIDS default_config = True" "PRICE_CAPTURE_BUMP_PCT default_config = 0.08"
  "EMA_ALPHA default_config = 0.40" "PRICE_CAPTURE_MAX_MINUTES default_config = Some 30"
  by (simp_all add: default_config_def)

text \<open>
  Claim C2, as the code has it.  An eligible \<open>update_price\<close> call (non-empty key, at least
  one bid when captures need bids, a positive price) applies the capture bump
  bumped = price * (1 + bump) and stores: for an absent key, ema_price = round(bumped, 2),
  samples = 1, observers_total = bid_count; for a present key, ema_price =
  round(alpha * bumped + (1 - alpha) * prior ema, 2), samples + 1, observers_total +
  bid_count; in both cases last_total_price = round(bumped, 2) and last_updated = now.
  On the empty store, key "Morgan Dollar|1921|P", price 50, 2 bids, bump 0.08 and alpha 0.4
  give ema_price = 54.0, samples = 1, observers_total = 2.
\<close>

theorem update_price_eligible:
  assumes "key \<noteq> []" and "PRICE_CAPTURE_ONLY_IF_BIDS cfg \<longrightarrow> 1 \<le> bid_count" and "0 < tp"
  shows "let bumped = tp * (1 + PRICE_CAPTURE_BUMP_PCT cfg); alpha = EMA_ALPHA cfg
         in update_price cfg now st key (Some tp) bid_count =
            (True, st(key \<mapsto>
                (case st key of
                   None \<Rightarrow> \<lparr>ema_price = py_round bumped 2, samples = 1,
                             last_total_price = py_round bumped 2, last_updated = now,
                             observers_total = bid_count\<rparr>
                 | Some e \<Rightarrow> \<lparr>ema_price = py_round (alpha * bumped + (1 - alpha) * ema_price e) 2,
                               samples = samples e + 1,
                               last_total_price = py_round bumped 2, last_updated = now,
                               observers_total = observers_total e + bid_count\<rparr>)))"
  using assms
  by (auto simp: update_price_def update_ema_entry_def Let_def split: option.splits)

theorem update_price_eligible_witness:
  "update_price default_config 1765618492 Map.empty ''Morgan Dollar|1921|P'' (Some 50) 2
     = (True, [''Morgan Dollar|1921|P'' \<mapsto> entry_b])
   \<and> update_price default_config 1765618500 [''Morgan Dollar|1921|P'' \<mapsto> entry_b]
        ''Morgan Dollar|1921|P'' (Some 60) 3
     = (True, [''Morgan Dollar|1921|P'' \<mapsto>
          \<lparr>ema_price = 58.32, samples = 2, last_total_price = 64.8, last_updated = 1765618500,
           observers_total = 5\<rparr>])"
  using update_price_eligible [of "''Morgan Dollar|1921|P''" default_config 2 50 1765618492 Map.empty]
        update_price_eligible [of "''Morgan Dollar|1921|P''" default_config 3 60 1765618500
                                  "[''Morgan Dollar|1921|P'' \<mapsto> entry_b]"]
  by (simp add: Let_def default_config_capture py_round_def round_half_even_def entry_b_def)

text \<open>
  The stored average is not the unrounded bumped price: a price of 10.01 is bumped to
  10.8108 and stored as 10.81.
\<close>

theorem ema_unrounded_counterexample:
  "\<exists>st'. update_price default_config 1765618492 Map.empty ''Morgan Dollar|1921|P'' (Some 10.01) 2 = (True, st')
     \<and> map_option ema_price (st' ''Morgan Dollar|1921|P'') \<noteq> Some (10.01 * (1 + 0.08))"
  by (simp add: update_price_def update_ema_entry_def Let_def default_config_capture
        py_round_def round_half_even_def)

lemma update_price_changes:
  "update_price cfg now st key price bid_count = (True, st') \<Longrightarrow> st' \<noteq> st"
proof
  assume u: "update_price cfg now st key price bid_count = (True, st')" and eq: "st' = st"
  from u obtain tp where st': "st' = st(key \<mapsto> update_ema_entry now (st key) (tp * (1 + PRICE_CAPTURE_BUMP_PCT cfg)) bid_count (EMA_ALPHA cfg))"
    by (auto simp: update_price_def Let_def split: if_splits option.splits)
  have "samples (update_ema_entry now (Some e) p b a) = samples e + 1" for e p b a
    by (simp add: update_ema_entry_def Let_def)
  then have "update_ema_entry now (Some e) p b a \<noteq> e" for e p b a
    by (metis add_cancel_left_right zero_neq_one)
  then have "st' key \<noteq> st key"
    unfolding st' by (cases "st key") auto
  with eq show False by simp
qed

lemma update_price_False: "update_price cfg now st key price bid_count = (False, st') \<Longrightarrow> st' = st"
  by (auto simp: update_price_def Let_def split: if_splits option.splits)

lemma detect_empty: "detect_coin_identity [] = None"
  by (simp add: detect_coin_identity_def strip_def)

lemma collect_updates_skip:
  "capture_candidate cfg now l = None \<Longrightarrow> collect_updates cfg now acc (l # ls) = collect_updates cfg now acc ls"
  by (cases acc) (simp add: Let_def)

lemma collect_updates_filter:
  assumes "\<And>l. P l \<Longrightarrow> capture_candidate cfg now l = None"
  shows "collect_updates cfg now acc ls = collect_updates cfg now acc (filter (\<lambda>l. \<not> P l) ls)"
proof (induction ls arbitrary: acc)
  case Nil
  show ?case by simp
next
  case (Cons l ls)
  show ?case
  proof (cases "P l")
    case True
    then show ?thesis using Cons.IH [of acc] by (simp add: collect_updates_skip assms)
  next
    case False
    obtain u s where acc: "acc = (u, s)" by (cases acc)
    from False show ?thesis
      by (simp add: acc Let_def Cons.IH split: option.splits prod.splits)
  qed
qed

text \<open>
  Claim C3, as the code has it.  \<open>update_price\<close> takes no quantity and no title: the
  quantity and title gates are those of the capture loop of \<open>run_once\<close>.  Call a listing
  ineligible when its inferred quantity is not 1, or it has no bid while captures need
  bids, or its title is empty or matches a disqualify term (the hard-disqualify pattern,
  an accessory term, a capture-disqualify keyword or pattern).  An ineligible listing offers
  no update; the capture of a scan gives the same count and the same store as the capture of
  the scan without its ineligible listings, and a scan of ineligible listings only writes
  nothing and returns the store as it was.  \<open>update_price\<close> itself returns False and the
  same store for an empty key, for fewer than one bid while captures need bids, and for a
  price that is absent or not positive; it returns True exactly when the store it returns
  differs from the one it was given.  No branch of these functions raises.
\<close>

theorem price_capture_gates:
  "let inel = (\<lambda>l::listing. extract_quantity_from_title (title l) \<noteq> 1
                  \<or> (PRICE_CAPTURE_ONLY_IF_BIDS cfg \<and> bids l < 1)
                  \<or> title l = []
                  \<or> re_found True HARD_DISQUALIFY_RE (title l)
                  \<or> any_in accessory_terms (lower (title l))
                  \<or> capture_disqualified cfg (title l))
   in (\<forall>l. inel l \<longrightarrow> capture_candidate cfg now l = None)
    \<and> run_capture cfg now st ls = run_capture cfg now st (filter (\<lambda>l. \<not> inel l) ls)
    \<and> ((\<forall>l \<in> set ls. inel l) \<longrightarrow> run_capture cfg now st ls = (0, st))
    \<and> (key = [] \<or> (PRICE_CAPTURE_ONLY_IF_BIDS cfg \<and> bid_count < 1) \<or> price = None
          \<or> (\<exists>tp. price = Some tp \<and> tp \<le> 0)
        \<longrightarrow> update_price cfg ts st key price bid_count = (False, st))
    \<and> (fst (update_price cfg ts st key price bid_count)
          \<longleftrightarrow> snd (update_price cfg ts st key price bid_count) \<noteq> st)"
proof -
  define inel where "inel = (\<lambda>l::listing. extract_quantity_from_title (title l) \<noteq> 1
                  \<or> (PRICE_CAPTURE_ONLY_IF_BIDS cfg \<and> bids l < 1)
                  \<or> title l = []
                  \<or> re_found True HARD_DISQUALIFY_RE (title l)
                  \<or> any_in accessory_terms (lower (title l))
                  \<or> capture_disqualified cfg (title l))"
  have c: "capture_candidate cfg now l = None" if "inel l" for l
    using that by (auto simp: inel_def capture_candidate_def detect_empty)
  have f: "run_capture cfg now st ls = run_capture cfg now st (filter (\<lambda>l. \<not> inel l) ls)"
    unfolding run_capture_def using collect_updates_filter [of inel cfg now "([], {})" ls] c
    by simp
  have n: "run_capture cfg now st ls = (0, st)" if "\<forall>l \<in> set ls. inel l"
  proof -
    from that have "filter (\<lambda>l. \<not> inel l) ls = []" by (simp add: filter_empty_conv)
    with f show ?thesis by (simp add: run_capture_def)
  qed
  have u: "update_price cfg ts st key price bid_count = (False, st)"
    if "key = [] \<or> (PRICE_CAPTURE_ONLY_IF_BIDS cfg \<and> bid_count < 1) \<or> price = None
          \<or> (\<exists>tp. price = Some tp \<and> tp \<le> 0)"
    using that by (auto simp: update_price_def)
  obtain ok st' where r: "update_price cfg ts st key price bid_count = (ok, st')"
    by (cases "update_price cfg ts st key price bid_count")
  have m: "fst (update_price cfg ts st key price bid_count)
            \<longleftrightarrow> snd (update_price cfg ts st key price bid_count) \<noteq> st"
    using update_price_changes [of cfg ts st key price bid_count st']
          update_price_False [of cfg ts st key price bid_count st'] r
    by (cases ok) auto
  from c f n u m show ?thesis
    unfolding Let_def inel_def [symmetric] by blast
qed


lemma listing_b_fields:
  "title listing_b = ''1921 Morgan Dollar VG''" "bids listing_b = 2" "item_price listing_b = 50"
  "end_time_ts listing_b = Some 1765619092" "item_id listing_b = None"
  by (simp_all add: listing_b_def)

lemma listing_lot_fields:
  "title listing_lot = ''Lot of 5 Morgan Dollars 1921''" "bids listing_lot = 3" "item_price listing_lot = 150"
  by (simp_all add: listing_lot_def)

lemma listing_album_fields:
  "title listing_album = ''1921 Morgan Dollar album''" "bids listing_album = 4"
  by (simp_all add: listing_album_def)

lemma quantity_b: "extract_quantity_from_title ''1921 Morgan Dollar VG'' = 1"
  by (simp add: extract_quantity_from_title_def quantity_patterns_def digits13_def int_of_digits_def
      rx_simps char_simps)

lemma quantity_lot: "extract_quantity_from_title ''Lot of 5 Morgan Dollars 1921'' = 5"
  by (simp add: extract_quantity_from_title_def quantity_patterns_def digits13_def int_of_digits_def
      rx_simps char_simps)

lemma hard_b: "\<not> re_found True HARD_DISQUALIFY_RE ''1921 Morgan Dollar VG''"
  by (simp add: HARD_DISQUALIFY_RE_def rx_simps char_simps)

lemma accessory_b: "\<not> any_in accessory_terms (lower ''1921 Morgan Dollar VG'')"
  by (simp add: any_in_def accessory_terms_def char_simps)

lemma accessory_album: "any_in accessory_terms (lower ''1921 Morgan Dollar album'')"
  by (simp add: any_in_def accessory_terms_def char_simps)

lemma default_config_capture_lists:
  "PRICE_CAPTURE_DISQUALIFY_KEYWORDS default_config =
        [''lot'', ''lots'', ''group'', ''collection'', ''estate'', ''hoard'',
         ''mixed'', ''bundle'', ''set'', ''roll'', ''bag'', ''coins'',
         ''bu'', ''brilliant uncirculated'', ''unc'', ''uncirculated'',
         ''au'', ''xf'', ''ef'', ''ms'', ''choice'', ''gem'',
         ''pl'', ''dmpl'', ''proof'',
         ''pcgs'', ''ngc'', ''anacs'', ''icg'', ''slab'', ''graded'', ''certified'', ''holder'',
         ''no coins'', ''coin book'', ''folder'', ''album'',
         ''money clip'', ''keychain'', ''cutout'', ''pendant'', ''necklace'']"
  "PRICE_CAPTURE_DISQUALIFY_REGEX default_config =
        [seqs [WordB, Rep Digit 1 None, Rep Space 0 None, Lit ''x'', WordB],
         seqs [WordB, Rep Digit 1 None, Rep Space 0 None, coin_words, WordB],
         seqs [Lit ''('', Rep Space 0 None, Rep Digit 1 None, Rep Space 0 None, coin_words,
               Rep Space 0 None, Opt (Lit ''lot''), Rep Space 0 None, Lit '')''],
         seqs [WordB, Lit ''lot'', Rep Space 0 None, Opt (Seq (Lit ''of'') (Rep Space 0 None)),
               Rep Digit 1 None, WordB],
         seqs [WordB, Lit ''ms'', Rep Space 0 None, two_digits, WordB],
         seqs [WordB, Lit ''pf'', Rep Space 0 None, two_digits, WordB]]"
  by (simp_all add: default_config_def)

lemma disqualified_b: "\<not> capture_disqualified default_config ''1921 Morgan Dollar VG''"
  by (simp add: capture_disqualified_def default_config_capture_lists coin_words_def two_digits_def
      rx_simps char_simps)

lemma identity_b: "detect_coin_identity ''1921 Morgan Dollar VG'' = Some (''Morgan Dollar'', 1921, ''P'')"
  by (simp add: detect_coin_identity_def COIN_PATTERNS_def YEAR_RE_def MINT_RE_def two_digits_def
      dot_star_def DEFAULT_MINT_def norm_mint_def year_in_window_def int_of_digits_def rx_simps char_simps)

lemma benchmark_key_b: "make_benchmark_key ''Morgan Dollar'' 1921 ''P'' = ''Morgan Dollar|1921|P''"
  by (simp add: make_benchmark_key_def str_int_def norm_mint_def DEFAULT_MINT_def char_simps)

lemma candidate_b:
  "capture_candidate default_config 1765618492 listing_b = Some (''Morgan Dollar|1921|P'', 50, 2)"
  by (simp add: capture_candidate_def listing_b_fields hard_b accessory_b disqualified_b quantity_b
      default_config_capture identity_b benchmark_key_b)

lemma run_capture_b:
  "run_capture default_config 1765618492 Map.empty [listing_b] = (1, [''Morgan Dollar|1921|P'' \<mapsto> entry_b])"
  by (simp add: run_capture_def Let_def candidate_b update_price_def update_ema_entry_def
      default_config_capture py_round_def round_half_even_def entry_b_def)

theorem price_capture_gates_witness:
  "run_capture default_config 1765618492 Map.empty [listing_lot, listing_b, listing_album]
     = (1, [''Morgan Dollar|1921|P'' \<mapsto> entry_b])
   \<and> run_capture default_config 1765618492 [''Morgan Dollar|1921|P'' \<mapsto> entry_b] [listing_lot, listing_album]
     = (0, [''Morgan Dollar|1921|P'' \<mapsto> entry_b])
   \<and> update_price default_config 1765618492 [''Morgan Dollar|1921|P'' \<mapsto> entry_b]
        ''Morgan Dollar|1921|P'' (Some 50) 0
     = (False, [''Morgan Dollar|1921|P'' \<mapsto> entry_b])"
proof -
  note g1 = price_capture_gates [of default_config 1765618492 Map.empty
          "[listing_lot, listing_b, listing_album]" "''Morgan Dollar|1921|P''" 0 "Some 50" 1765618492,
          unfolded Let_def]
  note g2 = price_capture_gates [of default_config 1765618492 "[''Morgan Dollar|1921|P'' \<mapsto> entry_b]"
          "[listing_lot, listing_album]" "''Morgan Dollar|1921|P''" 0 "Some 50" 1765618492,
          unfolded Let_def]
  have "run_capture default_config 1765618492 Map.empty [listing_lot, listing_b, listing_album]
          = run_capture default_config 1765618492 Map.empty [listing_b]"
    using g1 [THEN conjunct2, THEN conjunct1]
    by (simp add: listing_b_fields listing_lot_fields listing_album_fields quantity_b quantity_lot
      hard_b accessory_b accessory_album disqualified_b default_config_capture)
  then have a: "run_capture default_config 1765618492 Map.empty [listing_lot, listing_b, listing_album]
     = (1, [''Morgan Dollar|1921|P'' \<mapsto> entry_b])"
    by (simp add: run_capture_b)
  have b: "run_capture default_config 1765618492 [''Morgan Dollar|1921|P'' \<mapsto> entry_b] [listing_lot, listing_album]
     = (0, [''Morgan Dollar|1921|P'' \<mapsto> entry_b])"
    using g2 [THEN conjunct2, THEN conjunct2, THEN conjunct1]
    by (simp add: listing_lot_fields listing_album_fields quantity_lot accessory_album)
  have c: "update_price default_config 1765618492 [''Morgan Dollar|1921|P'' \<mapsto> entry_b]
        ''Morgan Dollar|1921|P'' (Some 50) 0
     = (False, [''Morgan Dollar|1921|P'' \<mapsto> entry_b])"
    using g2 [THEN conjunct2, THEN conjunct2, THEN conjunct2, THEN conjunct1]
    by (simp add: default_config_capture)
  from a b c show ?thesis by blast
qed

text \<open>
  \<open>update_price\<close> alone does not gate on quantity or title: for the key, price and bids of
  a lot of five coins it returns True and writes the entry.  Without the bids setting it
  also captures a listing that has no bid.
\<close>

theorem update_price_ungated_counterexample:
  "extract_quantity_from_title (title listing_lot) \<noteq> 1
   \<and> update_price default_config 1765618492 Map.empty ''Morgan Dollar|1921|P''
        (Some (item_price listing_lot)) (bids listing_lot)
      = (True, [''Morgan Dollar|1921|P'' \<mapsto>
           \<lparr>ema_price = 162, samples = 1, last_total_price = 162, last_updated = 1765618492,
            observers_total = 3\<rparr>])
   \<and> update_price (default_config\<lparr>PRICE_CAPTURE_ONLY_IF_BIDS := False\<rparr>) 1765618492 Map.empty
        ''Morgan Dollar|1921|P'' (Some 50) 0
      = (True, [''Morgan Dollar|1921|P'' \<mapsto>
           \<lparr>ema_price = 54, samples = 1, last_total_price = 54, last_updated = 1765618492,
            observers_total = 0\<rparr>])"
  by (simp add: listing_lot_fields quantity_lot update_price_def update_ema_entry_def
      default_config_capture py_round_def round_half_even_def)

subsection \<open>Classification\<close>

lemma minutes_left_cong:
  "time_left l' = time_left l \<Longrightarrow> end_time_ts l' = end_time_ts l \<Longrightarrow> minutes_left now l' = minutes_left now l"
  by (simp only: minutes_left_def)

lemma score_signals_cong:
  assumes "title l' = title l" "total_price l' = total_price l" "bids l' = bids l"
    "time_left l' = time_left l" "end_time_ts l' = end_time_ts l"
  shows "score_signals cfg now l' fmv dv = score_signals cfg now l fmv dv"
  using assms minutes_left_cong [of l' l now] by (simp only: score_signals_def)

lemma score_prospect_enrich:
  "score_prospect cfg now (enrich_listing_silver_fields l) fmv dv = score_prospect cfg now l fmv dv"
proof -
  have h: "score_signals cfg now (enrich_listing_silver_fields l) f d = score_signals cfg now l f d" for f d
    by (rule score_signals_cong) (simp_all add: enrich_fields)
  show ?thesis
    by (simp only: score_prospect_def enrich_fields h)
qed

lemma prospect_flag_enrich:
  "prospect_flag cfg now (enrich_listing_silver_fields l) fmv dv dmp = prospect_flag cfg now l fmv dv dmp"
  by (simp only: prospect_flag_def enrich_fields score_prospect_enrich)

lemma rec_max_total_calc:
  "rec_max_total (calc_silver cfg l sp pp bo) =
     compute_recommended_max_total
       (compute_payout (compute_melt_value
          (of_int (quantity (enrich_listing_silver_fields l)) * oz_per_coin (enrich_listing_silver_fields l))
          (the_default (SPOT_PRICE cfg) sp)) (the_default (PAWN_PAYOUT_PCT cfg) pp))
       (MIN_MARGIN_PCT cfg)"
  using enrich_quantity_ge1 [of l]
  by (simp add: calc_silver_def Let_def the_default_def split: option.splits)

lemma is_hit_eval:
  "is_hit (evaluate_one cfg now st static l) = (total_price l \<le> rec_max_total (calc_silver cfg l None None None))"
  by (simp add: evaluate_one_def Let_def enrich_fields split: prod.splits)

text \<open>
  Claim C4.  For every evaluated listing, \<open>is_hit\<close> holds exactly when the total price is at
  most the melt-derived recommended maximum total (which \<open>calc_silver\<close> always returns).  It
  depends on the melt settings only: two evaluations of a listing that agree on the spot
  price, the payout percent and the minimum margin give the same \<open>is_hit\<close>, whatever the
  price memory, the static floors, the clock and the numismatic and prospect settings are.
\<close>

theorem is_hit_melt_only:
  "is_hit (evaluate_one cfg now st static l)
     = (total_price l \<le> rec_max_total (calc_silver cfg l None None None))
   \<and> (SPOT_PRICE cfg' = SPOT_PRICE cfg \<and> PAWN_PAYOUT_PCT cfg' = PAWN_PAYOUT_PCT cfg
        \<and> MIN_MARGIN_PCT cfg' = MIN_MARGIN_PCT cfg
      \<longrightarrow> is_hit (evaluate_one cfg' now' st' static' l) = is_hit (evaluate_one cfg now st static l))"
  by (simp add: is_hit_eval rec_max_total_calc)


theorem is_hit_melt_only_witness:
  "is_hit (evaluate_one (default_config\<lparr>NUMISMATIC_PAYOUT_PCT := 90, PROS_MIN_SCORE := 0\<rparr>) 0
             [''Walking Liberty Half|1921|P'' \<mapsto> entry_b] Map.empty listing_c1)
     = is_hit (evaluate_one default_config 1765618492 Map.empty STATIC_NUMISMATIC_DEFAULTS listing_c1)
   \<and> \<not> is_hit (evaluate_one default_config 1765618492 Map.empty STATIC_NUMISMATIC_DEFAULTS listing_c1)"
  using is_hit_melt_only [of default_config 1765618492 Map.empty STATIC_NUMISMATIC_DEFAULTS listing_c1
          "default_config\<lparr>NUMISMATIC_PAYOUT_PCT := 90, PROS_MIN_SCORE := 0\<rparr>" 0
          "[''Walking Liberty Half|1921|P'' \<mapsto> entry_b]" Map.empty]
  by (simp add: rec_max_total_calc default_config_melt listing_c1_def enrich_listing_silver_fields_def
      compute_recommended_max_total_def compute_payout_def compute_melt_value_def the_default_def
      py_round_def round_half_even_def)

lemma is_prospect_eval:
  "is_prospect (evaluate_one cfg now st static l) =
     (case check_numismatic_override (title l) of
        None \<Rightarrow> False
      | Some ov \<Rightarrow>
          (case fst (resolve_fmv st static (coin_type ov) (year ov) (mint ov)) of
             None \<Rightarrow> False
           | Some fmv \<Rightarrow>
               prospect_flag cfg now l (Some fmv) (Some (fmv * (NUMISMATIC_PAYOUT_PCT cfg / 100)))
                 (if 0 < total_price l
                  then Some ((fmv * (NUMISMATIC_PAYOUT_PCT cfg / 100) - total_price l) / total_price l * 100)
                  else None)))"
proof (cases "check_numismatic_override (title l)")
  case None
  then show ?thesis
    by (simp add: evaluate_one_def Let_def enrich_fields prospect_flag_def)
next
  case ov: (Some ov)
  obtain f s where r: "resolve_fmv st static (coin_type ov) (year ov) (mint ov) = (f, s)"
    by (cases "resolve_fmv st static (coin_type ov) (year ov) (mint ov)")
  show ?thesis
  proof (cases f)
    case None
    with ov r show ?thesis
      by (simp add: evaluate_one_def Let_def enrich_fields prospect_flag_def)
  next
    case (Some fmv)
    with ov r show ?thesis
      by (simp add: evaluate_one_def Let_def enrich_fields prospect_flag_enrich)
  qed
qed

lemma evaluate_one_numismatic:
  "numismatic_override (evaluate_one cfg now st static l)
     = map_option display_name (check_numismatic_override (title l))"
  "fmv_floor (evaluate_one cfg now st static l)
     = (case check_numismatic_override (title l) of
          None \<Rightarrow> None
        | Some ov \<Rightarrow> fst (resolve_fmv st static (coin_type ov) (year ov) (mint ov)))"
  "dealer_value (evaluate_one cfg now st static l)
     = map_option (\<lambda>f. f * (NUMISMATIC_PAYOUT_PCT cfg / 100)) (fmv_floor (evaluate_one cfg now st static l))"
  "dealer_margin_pct (evaluate_one cfg now st static l)
     = (if 0 < total_price l
        then map_option (\<lambda>v. (v - total_price l) / total_price l * 100)
               (dealer_value (evaluate_one cfg now st static l))
        else None)"
  by (auto simp: evaluate_one_def Let_def enrich_fields option.map_comp comp_def
      split: prod.splits option.splits)

text \<open>
  Claim C5.  For every evaluated listing, \<open>is_prospect\<close> holds exactly when a numismatic
  override resolved with an FMV floor, the total price is positive and passes the optional
  total-spend cap, the dealer margin reaches the configured minimum or the reasons of the
  prospect score contain "premium-terms-priced-like-raw", and the score reaches the configured
  minimum; so it is False unless all of these hold.  The FMV floor is the one that
  \<open>resolve_fmv\<close> gives for the detected identity: when \<open>resolve_fmv\<close> returns (None, None),
  \<open>is_prospect\<close> is False whatever the other signals are.
\<close>

theorem is_prospect_rule:
  "let e = evaluate_one cfg now st static l;
       ps = score_prospect cfg now l (fmv_floor e) (dealer_value e)
   in (is_prospect e \<longleftrightarrow>
         numismatic_override e \<noteq> None \<and> fmv_floor e \<noteq> None \<and> 0 < total_price l
         \<and> (case PROS_MAX_TOTAL cfg of None \<Rightarrow> True | Some cap \<Rightarrow> total_price l \<le> cap)
         \<and> ((\<exists>dm. dealer_margin_pct e = Some dm \<and> PROS_MIN_DEALER_MARGIN_PCT cfg \<le> dm)
              \<or> ''premium-terms-priced-like-raw'' \<in> set (reasons ps))
         \<and> PROS_MIN_SCORE cfg \<le> score ps)
    \<and> fmv_floor e = (case check_numismatic_override (title l) of
                        None \<Rightarrow> None
                      | Some ov \<Rightarrow> fst (resolve_fmv st static (coin_type ov) (year ov) (mint ov)))
    \<and> ((\<forall>ov. check_numismatic_override (title l) = Some ov
           \<longrightarrow> resolve_fmv st static (coin_type ov) (year ov) (mint ov) = (None, None))
        \<longrightarrow> \<not> is_prospect e)"
proof -
  let ?e = "evaluate_one cfg now st static l"
  show ?thesis
  proof (cases "check_numismatic_override (title l)")
    case None
    then show ?thesis
      by (simp add: Let_def is_prospect_eval evaluate_one_numismatic)
  next
    case ov: (Some ov)
    show ?thesis
    proof (cases "fst (resolve_fmv st static (coin_type ov) (year ov) (mint ov))")
      case None
      with ov show ?thesis
        by (simp add: Let_def is_prospect_eval evaluate_one_numismatic)
    next
      case (Some fmv)
      with ov show ?thesis
        by (auto simp: Let_def is_prospect_eval evaluate_one_numismatic prospect_flag_def
            the_default_def CAT3_REASON_def split: option.splits)
    qed
  qed
qed

lemma resolve_b:
  "resolve_fmv store_b STATIC_NUMISMATIC_DEFAULTS ''Morgan Dollar'' 1921 ''P'' = (Some 200, Some ''Offline EMA o.7'')"
  "resolve_fmv Map.empty STATIC_NUMISMATIC_DEFAULTS ''Morgan Dollar'' 1921 ''P'' = (None, None)"
  by (simp_all add: resolve_fmv_def make_key_def store_b_def get_ema_value_and_observers_def lookup_ema_def
      lookup_observers_def STATIC_NUMISMATIC_DEFAULTS_def str_int_def char_simps)

lemma override_b:
  "check_numismatic_override ''1921 Morgan Dollar VG'' =
     Some \<lparr>coin_type = ''Morgan Dollar'', year = 1921, mint = ''P'', display_name = ''Morgan Dollar 1921-P''\<rparr>"
  by (simp add: check_numismatic_override_def identity_b str_int_def char_simps)

lemma listing_b_prices: "total_price listing_b = 50" "shipping listing_b = 0" "time_left listing_b = ''10m left''"
  by (simp_all add: listing_b_def)

lemma default_config_pros:
  "PROS_MAX_TOTAL default_config = Some 150" "PROS_MIN_DEALER_MARGIN_PCT default_config = 5"
  "PROS_MIN_SCORE default_config = 60" "PROS_HARD_DISQUALIFY_KEYWORDS default_config = []"
  "PROS_DISQUALIFY_KEYWORDS default_config =
        [''holed'', ''hole'', ''drilled'', ''pierced'', ''plugged'',
         ''bent'', ''damaged'', ''broken'', ''scratched'', ''details'',
         ''harshly cleaned'', ''cleaned'',
         ''replica'', ''copy'', ''fantasy'', ''reproduction'',
         ''plated'', ''clad'', ''silver plate'', ''silver plated'', ''silver tone'', ''silver toned'',
         ''gold tone'', ''gold toned'']"
  "PROS_DISQUALIFY_REGEX default_config =
        [seqs [WordB, alts [Lit ''replica'', Lit ''copy'', Lit ''fantasy'', Lit ''reproduction''], WordB]]"
  "PROS_HYPE_KEYWORDS default_config =
        [''monster'', ''wow'', ''elite'', ''rare!!'', ''superb'', ''amazing'',
         ''beautiful'', ''blazing'', ''choice'', ''gem'', ''premium'', ''rare'', ''key date'',
         ''clearance'', ''start'', ''starts'', ''start$'', ''start $'', ''nr'', ''no reserve'',
         ''ms'', ''pf'', ''proof'', ''dmpl'', ''pl'', ''deep mirror'',
         ''bu'', ''unc'', ''uncirculated'', ''brilliant uncirculated'',
         ''pcgs'', ''ngc'', ''anacs'', ''icg'', ''cac'', ''slab'', ''graded'', ''certified'']"
  "PROS_UNDERDESCRIBED_KEYWORDS default_config =
        [''estate'', ''old collection'', ''attic'', ''found'', ''as is'', ''no reserve'',
         ''better date'', ''scarce date'']"
  "PROS_HIGH_GRADE_KEYWORDS default_config =
        [''pcgs'', ''ngc'', ''anacs'', ''icg'', ''cac'',
         ''ms'', ''ms-'', ''ms60'', ''ms61'', ''ms62'', ''ms63'', ''ms64'', ''ms65'', ''ms66'',
         ''ms67'', ''ms68'', ''ms69'', ''ms70'',
         ''au'', ''a.u.'', ''about uncirculated'', ''unc'', ''uncirculated'', ''bu'',
         ''brilliant uncirculated'',
         ''proof'', ''pr'', ''pf'', ''deep cameo'', ''dcam'', ''ultra cameo'', ''ucam'', ''cameo'',
         ''pl'', ''prooflike'', ''dmpl'', ''deep mirror prooflike'',
         ''gem'', ''choice'', ''blast white'', ''monster toning'', ''full bands'', ''full bell lines'']"
  by (simp_all add: default_config_def)

lemma has_any_b:
  "\<not> has_any ''1921 Morgan Dollar VG'' (PROS_HARD_DISQUALIFY_KEYWORDS default_config @ PROS_DISQUALIFY_KEYWORDS default_config)"
  "\<not> matches_any_regex ''1921 Morgan Dollar VG'' (PROS_DISQUALIFY_REGEX default_config)"
  "\<not> has_any ''1921 Morgan Dollar VG'' (PROS_HYPE_KEYWORDS default_config)"
  "\<not> has_any ''1921 Morgan Dollar VG'' (PROS_UNDERDESCRIBED_KEYWORDS default_config)"
  "\<not> has_any ''1921 Morgan Dollar VG'' (PROS_HIGH_GRADE_KEYWORDS default_config)"
  by (simp_all add: default_config_pros has_any_def matches_any_regex_def rx_simps char_simps)

lemma score_b:
  "score_prospect default_config 1765618492 listing_b (Some 200) (Some 120)
     = \<lparr>score = 95, reasons = [''huge-dealer-margin'', ''fmv-gap>=100'', ''few-bids'', ''ending-soon'']\<rparr>"
  by (simp add: score_prospect_def score_signals_def listing_b_def has_any_b Let_def char_simps)


lemma eval_fields_b:
  "fmv_floor (evaluate_one default_config 1765618492 store_b STATIC_NUMISMATIC_DEFAULTS listing_b) = Some 200"
  "dealer_value (evaluate_one default_config 1765618492 store_b STATIC_NUMISMATIC_DEFAULTS listing_b) = Some 120"
  "dealer_margin_pct (evaluate_one default_config 1765618492 store_b STATIC_NUMISMATIC_DEFAULTS listing_b) = Some 140"
  "numismatic_override (evaluate_one default_config 1765618492 store_b STATIC_NUMISMATIC_DEFAULTS listing_b)
     = Some ''Morgan Dollar 1921-P''"
  "fmv_floor (evaluate_one default_config 1765618492 Map.empty STATIC_NUMISMATIC_DEFAULTS listing_b) = None"
  by (simp_all add: evaluate_one_numismatic override_b resolve_b default_config_melt listing_b_fields
      listing_b_prices)

theorem is_prospect_rule_witness:
  "is_prospect (evaluate_one default_config 1765618492 store_b STATIC_NUMISMATIC_DEFAULTS listing_b)
   \<and> \<not> is_prospect (evaluate_one default_config 1765618492 Map.empty STATIC_NUMISMATIC_DEFAULTS listing_b)
   \<and> \<not> is_prospect (evaluate_one (default_config\<lparr>PROS_MIN_SCORE := 96\<rparr>) 1765618492 store_b
            STATIC_NUMISMATIC_DEFAULTS listing_b)
   \<and> \<not> is_prospect (evaluate_one (default_config\<lparr>PROS_MAX_TOTAL := Some 49\<rparr>) 1765618492 store_b
            STATIC_NUMISMATIC_DEFAULTS listing_b)"
proof -
  note g = is_prospect_rule [unfolded Let_def]
  have a: "is_prospect (evaluate_one default_config 1765618492 store_b STATIC_NUMISMATIC_DEFAULTS listing_b)"
    using g [of default_config 1765618492 store_b STATIC_NUMISMATIC_DEFAULTS listing_b, THEN conjunct1]
    by (simp add: eval_fields_b score_b default_config_pros listing_b_prices)
  have b: "\<not> is_prospect (evaluate_one default_config 1765618492 Map.empty STATIC_NUMISMATIC_DEFAULTS listing_b)"
    using g [of default_config 1765618492 Map.empty STATIC_NUMISMATIC_DEFAULTS listing_b, THEN conjunct2, THEN conjunct2]
    by (simp add: override_b resolve_b listing_b_fields)
  have sc: "score_prospect (default_config\<lparr>PROS_MIN_SCORE := 96\<rparr>) 1765618492 listing_b (Some 200) (Some 120)
     = \<lparr>score = 95, reasons = [''huge-dealer-margin'', ''fmv-gap>=100'', ''few-bids'', ''ending-soon'']\<rparr>"
    by (simp add: score_prospect_def score_signals_def listing_b_def has_any_b Let_def char_simps)
  have c: "\<not> is_prospect (evaluate_one (default_config\<lparr>PROS_MIN_SCORE := 96\<rparr>) 1765618492 store_b
            STATIC_NUMISMATIC_DEFAULTS listing_b)"
    using g [of "default_config\<lparr>PROS_MIN_SCORE := 96\<rparr>" 1765618492 store_b STATIC_NUMISMATIC_DEFAULTS listing_b,
             THEN conjunct1]
    by (simp add: evaluate_one_numismatic override_b resolve_b default_config_melt sc listing_b_fields
        listing_b_prices)
  have d: "\<not> is_prospect (evaluate_one (default_config\<lparr>PROS_MAX_TOTAL := Some 49\<rparr>) 1765618492 store_b
            STATIC_NUMISMATIC_DEFAULTS listing_b)"
    using g [of "default_config\<lparr>PROS_MAX_TOTAL := Some 49\<rparr>" 1765618492 store_b STATIC_NUMISMATIC_DEFAULTS listing_b,
             THEN conjunct1]
    by (simp add: listing_b_prices)
  from a b c d show ?thesis by blast
qed

subsection \<open>Prospect score\<close>

lemma score_prospect_cases:
  "score_prospect cfg now l fmv dv = \<lparr>score = 0, reasons = [''missing-anchors'']\<rparr>
   \<or> score_prospect cfg now l fmv dv = \<lparr>score = 0, reasons = [''pros-hard-disqualify-keyword'']\<rparr>
   \<or> score_prospect cfg now l fmv dv = \<lparr>score = 0, reasons = [''pros-hard-disqualify-regex'']\<rparr>
   \<or> (\<exists>f d. fmv = Some f \<and> dv = Some d \<and> 0 < total_price l
        \<and> \<not> has_any (title l) (PROS_HARD_DISQUALIFY_KEYWORDS cfg @ PROS_DISQUALIFY_KEYWORDS cfg)
        \<and> \<not> matches_any_regex (title l) (PROS_DISQUALIFY_REGEX cfg)
        \<and> score_prospect cfg now l fmv dv =
            \<lparr>score = max 0 (min 100 (fst (score_signals cfg now l f d))),
             reasons = snd (score_signals cfg now l f d)\<rparr>)"
  by (auto simp: score_prospect_def Let_def split: option.splits prod.splits)

text \<open>
  Claim C6.  For every listing and anchors, the score of \<open>score_prospect\<close> lies in [0, 100].
  Whenever the title matches a hard-disqualify keyword or regex, the score is 0 and the
  reasons are one single tag, so no additive signal is applied: with both anchors present
  and a positive total price the tag is the disqualify tag, otherwise "missing-anchors".
\<close>

theorem score_prospect_range:
  "0 \<le> score (score_prospect cfg now l fmv dv) \<and> score (score_prospect cfg now l fmv dv) \<le> 100
   \<and> (has_any (title l) (PROS_HARD_DISQUALIFY_KEYWORDS cfg @ PROS_DISQUALIFY_KEYWORDS cfg)
        \<or> matches_any_regex (title l) (PROS_DISQUALIFY_REGEX cfg)
      \<longrightarrow> score (score_prospect cfg now l fmv dv) = 0
          \<and> reasons (score_prospect cfg now l fmv dv)
              \<in> {[''missing-anchors''], [''pros-hard-disqualify-keyword''], [''pros-hard-disqualify-regex'']}
          \<and> (fmv \<noteq> None \<and> dv \<noteq> None \<and> 0 < total_price l
              \<longrightarrow> reasons (score_prospect cfg now l fmv dv)
                    \<in> {[''pros-hard-disqualify-keyword''], [''pros-hard-disqualify-regex'']}))"
proof -
  have r: "0 \<le> score (score_prospect cfg now l fmv dv) \<and> score (score_prospect cfg now l fmv dv) \<le> 100"
    using score_prospect_cases [of cfg now l fmv dv] by auto
  have d: "score (score_prospect cfg now l fmv dv) = 0
          \<and> reasons (score_prospect cfg now l fmv dv)
              \<in> {[''missing-anchors''], [''pros-hard-disqualify-keyword''], [''pros-hard-disqualify-regex'']}
          \<and> (fmv \<noteq> None \<and> dv \<noteq> None \<and> 0 < total_price l
              \<longrightarrow> reasons (score_prospect cfg now l fmv dv)
                    \<in> {[''pros-hard-disqualify-keyword''], [''pros-hard-disqualify-regex'']})"
    if "has_any (title l) (PROS_HARD_DISQUALIFY_KEYWORDS cfg @ PROS_DISQUALIFY_KEYWORDS cfg)
        \<or> matches_any_regex (title l) (PROS_DISQUALIFY_REGEX cfg)"
    using that by (auto simp: score_prospect_def Let_def split: option.splits)
  from r d show ?thesis by blast
qed

lemma has_any_replica:
  "has_any (title listing_replica) (PROS_HARD_DISQUALIFY_KEYWORDS default_config @ PROS_DISQUALIFY_KEYWORDS default_config)"
  by (simp add: default_config_pros listing_replica_def has_any_def Let_def char_simps)

theorem score_prospect_range_witness:
  "score (score_prospect default_config 1765618492 listing_replica (Some 200) (Some 120)) = 0
   \<and> reasons (score_prospect default_config 1765618492 listing_replica (Some 200) (Some 120))
       = [''pros-hard-disqualify-keyword'']
   \<and> score (score_prospect default_config 1765618492 listing_replica None None) = 0
   \<and> score (score_prospect default_config 1765618492 listing_b (Some 200) (Some 120)) = 95"
proof -
  note g = score_prospect_range [of default_config 1765618492 listing_replica "Some 200" "Some 120"]
  from g has_any_replica
  have z: "score (score_prospect default_config 1765618492 listing_replica (Some 200) (Some 120)) = 0"
    by blast
  have r: "reasons (score_prospect default_config 1765618492 listing_replica (Some 200) (Some 120))
       = [''pros-hard-disqualify-keyword'']"
    using has_any_replica by (simp add: score_prospect_def listing_replica_def)
  have n: "score (score_prospect default_config 1765618492 listing_replica None None) = 0"
    using score_prospect_range [of default_config 1765618492 listing_replica None None] has_any_replica
    by blast
  from z r n show ?thesis by (simp add: score_b)
qed

subsection \<open>Ordering\<close>






subsection \<open>Rounding of the melt result\<close>

lemma config_a_melt:
  "SPOT_PRICE config_a = 30" "PAWN_PAYOUT_PCT config_a = 80"
  "BID_OFFSET config_a = 0" "MIN_MARGIN_PCT config_a = 12"
  by (simp_all add: config_a_def default_config_melt)

lemma detect_oz_a: "detect_oz_per_coin_from_title ''1921 Walking Liberty Half, AU, no bids'' = 0.36169"
  by (simp add: detect_oz_per_coin_from_title_def any_in_def half_tokens_def
      dollar_tokens_def ASW_HALF_DOLLAR_def Let_def char_simps)

lemma listing_a_fields:
  "title listing_a = ''1921 Walking Liberty Half, AU, no bids''" "quantity listing_a = 1"
  "oz_per_coin listing_a = 0" "total_price listing_a = 40" "shipping listing_a = 5"
  by (simp_all add: listing_a_def)

lemma enrich_a:
  "quantity (enrich_listing_silver_fields listing_a) = 1"
  "oz_per_coin (enrich_listing_silver_fields listing_a) = 0.36169"
  by (simp_all add: enrich_quantity enrich_oz listing_a_fields detect_oz_a)

lemma calc_a_fields:
  "calc_oz_per_coin (calc_silver config_a listing_a None None None) = 0.36169"
  "melt_value (calc_silver config_a listing_a None None None) = 10.8507"
  "melt_payout (calc_silver config_a listing_a None None None) = 8.68056"
  by (simp_all add: calc_silver_def Let_def enrich_a config_a_melt compute_melt_value_def compute_payout_def)

lemma calc_a_rec:
  "rec_max_total (calc_silver config_a listing_a None None None) = 7.75"
  by (simp add: rec_max_total_calc enrich_a config_a_melt compute_melt_value_def compute_payout_def
      compute_recommended_max_total_def the_default_def py_round_def round_half_even_def)

lemma calc_a_item:
  "rec_max_item (calc_silver config_a listing_a None None None) = 2.75"
proof -
  have "rec_max_item (calc_silver config_a listing_a None None None)
          = compute_recommended_max_item_only (rec_max_total (calc_silver config_a listing_a None None None))
              (shipping listing_a)"
    by (simp add: calc_silver_def Let_def enrich_fields)
  then show ?thesis
    by (simp add: calc_a_rec listing_a_fields compute_recommended_max_item_only_def py_round_def
        round_half_even_def)
qed

lemma py_round_a:
  "py_round 10.8507 2 = 10.85" "py_round 8.68056 2 = 8.68"
  by (simp_all add: py_round_def round_half_even_def)

lemma py_round_grid: "\<exists>k::int. py_round x 2 = of_int k / 100"
  by (simp add: py_round_def)

text \<open>
  Claim C9, as the code has it.  In every melt calculation result the recommended maximum
  total and the recommended maximum item price are rounded to 2 decimals; the other fields
  are stored as computed, without rounding: the weights (weight per coin and total weight),
  the melt value, the melt payout, the profit, the profit at the recommended maximum and
  the margin percentages.  In Scenario A (title "1921 Walking Liberty Half, AU, no bids",
  total price 40, shipping 5, quantity 1, spot price 30, payout 80 percent) the weight per
  coin is 0.36169, the melt value is 10.8507 (10.85 once rounded to 2 decimals), the melt
  payout is 8.68056 (8.68 once rounded), the recommended maximum total is 7.75, and the
  listing is not a hit.
\<close>

theorem calc_silver_rounding:
  "(let c = calc_silver cfg l sp pp bo;
        l' = enrich_listing_silver_fields l;
        cost = total_price l + the_default (BID_OFFSET cfg) bo
    in py_round (rec_max_total c) 2 = rec_max_total c
     \<and> py_round (rec_max_item c) 2 = rec_max_item c
     \<and> (\<exists>k::int. rec_max_total c = of_int k / 100)
     \<and> (\<exists>k::int. rec_max_item c = of_int k / 100)
     \<and> calc_oz_per_coin c = oz_per_coin l'
     \<and> total_oz c = of_int (quantity l') * oz_per_coin l'
     \<and> melt_value c = total_oz c * the_default (SPOT_PRICE cfg) sp
     \<and> melt_payout c = melt_value c * (the_default (PAWN_PAYOUT_PCT cfg) pp / 100)
     \<and> profit c = melt_payout c - cost
     \<and> profit_at_rec_max c = melt_payout c - rec_max_total c
     \<and> margin_pct c = (if cost \<le> 0 then 0 else profit c / cost * 100)
     \<and> margin_at_rec_max c
           = (if rec_max_total c \<le> 0 then 0 else profit_at_rec_max c / rec_max_total c * 100))
   \<and> (let a = calc_silver config_a listing_a None None None
      in calc_oz_per_coin a = 0.36169
       \<and> melt_value a = 10.8507 \<and> py_round (melt_value a) 2 = 10.85
       \<and> melt_payout a = 8.68056 \<and> py_round (melt_payout a) 2 = 8.68
       \<and> rec_max_total a = 7.75)
   \<and> \<not> is_hit (evaluate_one config_a now st static listing_a)"
proof -
  let ?c = "calc_silver cfg l sp pp bo"
  have q: "quantity (enrich_listing_silver_fields l) \<noteq> 0"
    using enrich_quantity_ge1 [of l] by simp
  have t: "rec_max_total ?c = py_round (if max 0 (MIN_MARGIN_PCT cfg / 100) \<le> 0 then melt_payout ?c
               else melt_payout ?c / (1 + max 0 (MIN_MARGIN_PCT cfg / 100))) 2"
    by (simp add: calc_silver_def Let_def compute_recommended_max_total_def)
  have i: "rec_max_item ?c = py_round (max 0 (rec_max_total ?c - shipping l)) 2"
    by (simp add: calc_silver_def Let_def compute_recommended_max_item_only_def enrich_fields)
  have r1: "py_round (rec_max_total ?c) 2 = rec_max_total ?c"
    by (subst (1 2) t) (rule py_round_idem)
  have r2: "py_round (rec_max_item ?c) 2 = rec_max_item ?c"
    by (subst (1 2) i) (rule py_round_idem)
  have g1: "\<exists>k::int. rec_max_total ?c = of_int k / 100"
    by (subst t) (rule py_round_grid)
  have g2: "\<exists>k::int. rec_max_item ?c = of_int k / 100"
    by (subst i) (rule py_round_grid)
  have f: "calc_oz_per_coin ?c = oz_per_coin (enrich_listing_silver_fields l)"
      "total_oz ?c = of_int (quantity (enrich_listing_silver_fields l)) * oz_per_coin (enrich_listing_silver_fields l)"
      "melt_value ?c = total_oz ?c * the_default (SPOT_PRICE cfg) sp"
      "melt_payout ?c = melt_value ?c * (the_default (PAWN_PAYOUT_PCT cfg) pp / 100)"
      "profit ?c = melt_payout ?c - (total_price l + the_default (BID_OFFSET cfg) bo)"
      "profit_at_rec_max ?c = melt_payout ?c - rec_max_total ?c"
      "margin_pct ?c = (if total_price l + the_default (BID_OFFSET cfg) bo \<le> 0 then 0
                        else profit ?c / (total_price l + the_default (BID_OFFSET cfg) bo) * 100)"
      "margin_at_rec_max ?c
           = (if rec_max_total ?c \<le> 0 then 0 else profit_at_rec_max ?c / rec_max_total ?c * 100)"
    by (simp_all add: calc_silver_def Let_def q enrich_fields compute_melt_value_def compute_payout_def
        compute_profit_def compute_margin_pct_def the_default_def split: option.splits)
  have a: "let a = calc_silver config_a listing_a None None None
      in calc_oz_per_coin a = 0.36169
       \<and> melt_value a = 10.8507 \<and> py_round (melt_value a) 2 = 10.85
       \<and> melt_payout a = 8.68056 \<and> py_round (melt_payout a) 2 = 8.68
       \<and> rec_max_total a = 7.75"
    by (simp only: Let_def calc_a_fields calc_a_rec py_round_a simp_thms)
  have h: "\<not> is_hit (evaluate_one config_a now st static listing_a)"
    by (simp add: is_hit_eval calc_a_rec listing_a_fields)
  from r1 r2 g1 g2 f a h show ?thesis
    unfolding Let_def by blast
qed

theorem calc_silver_rounding_witness:
  "rec_max_total (calc_silver config_a listing_a None None None) = 7.75
   \<and> py_round 7.75 2 = (7.75 :: real)
   \<and> rec_max_item (calc_silver config_a listing_a None None None) = 2.75
   \<and> py_round 2.75 2 = (2.75 :: real)
   \<and> profit (calc_silver config_a listing_a None None None) = 8.68056 - 40
   \<and> \<not> is_hit (evaluate_one config_a 1765618492 Map.empty STATIC_NUMISMATIC_DEFAULTS listing_a)"
proof -
  note g = calc_silver_rounding [of config_a listing_a None None None 1765618492 Map.empty
      STATIC_NUMISMATIC_DEFAULTS, unfolded Let_def]
  from g have "py_round (rec_max_total (calc_silver config_a listing_a None None None)) 2
                 = rec_max_total (calc_silver config_a listing_a None None None)"
    by blast
  then have a: "py_round 7.75 2 = (7.75 :: real)"
    by (simp only: calc_a_rec)
  from g have "py_round (rec_max_item (calc_silver config_a listing_a None None None)) 2
                 = rec_max_item (calc_silver config_a listing_a None None None)"
    by blast
  then have b: "py_round 2.75 2 = (2.75 :: real)"
    by (simp only: calc_a_item)
  from g have "profit (calc_silver config_a listing_a None None None)
                 = melt_payout (calc_silver config_a listing_a None None None)
                   - (total_price listing_a + the_default (BID_OFFSET config_a) None)"
    by blast
  then have p: "profit (calc_silver config_a listing_a None None None) = 8.68056 - 40"
    by (simp add: calc_a_fields listing_a_fields config_a_melt the_default_def)
  from g have h: "\<not> is_hit (evaluate_one config_a 1765618492 Map.empty STATIC_NUMISMATIC_DEFAULTS listing_a)"
    by blast
  from a b p h show ?thesis
    by (simp only: calc_a_rec calc_a_item simp_thms)
qed

text \<open>
  The melt value and the melt payout are not rounded to 2 decimals: in Scenario A they are
  10.8507 and 8.68056, not 10.85 and 8.68.
\<close>

theorem melt_value_unrounded_counterexample:
  "melt_value (calc_silver config_a listing_a None None None) \<noteq> 10.85
   \<and> py_round (melt_value (calc_silver config_a listing_a None None None)) 2
         \<noteq> melt_value (calc_silver config_a listing_a None None None)
   \<and> melt_payout (calc_silver config_a listing_a None None None) \<noteq> 8.68"
  by (simp only: calc_a_fields py_round_a) simp

end
